theory Spec2Isabelle
  imports Main "HOL-Library.AList"
begin

section \<open>JavaScript values and the browser around the SDK\<close>

text \<open>
  The repository is one file, \<^verbatim>\<open>questplay-sdk.js\<close>, in two versions of the class
  \<^verbatim>\<open>QuestPlaySDK\<close>. The older version (one bound \<^verbatim>\<open>handleMessage\<close> listener per
  game, an origin check, \<^verbatim>\<open>removeGame\<close>) keeps the source's names below; the newer
  version (one listener registered by the constructor, routing by \<^verbatim>\<open>event.source\<close>, no
  \<^verbatim>\<open>removeGame\<close>) has its names prefixed with \<^verbatim>\<open>v2_\<close>.

  Message payloads cross a window boundary and are arbitrary structured data, so they are
  values of \<open>jsval\<close>. Numbers are modelled by the integers; only their truthiness is ever
  inspected by the SDK. The fields of a configuration have the types the documentation
  gives them (strings and functions), and a field the host left out is \<open>None\<close>.
\<close>

datatype jsval =
    JUndefined
  | JNull
  | JBool bool
  | JNum int
  | JStr string
  | JArr "jsval list"
  | JObj "(string \<times> jsval) list"

datatype js_error = TypeError | SyntaxError

text \<open>JavaScript truthiness, as used by \<^verbatim>\<open>if (locale)\<close>, \<^verbatim>\<open>event.data || {}\<close> and \<^verbatim>\<open>!action\<close>.\<close>

fun truthy :: "jsval \<Rightarrow> bool" where
  "truthy JUndefined = False"
| "truthy JNull = False"
| "truthy (JBool b) = b"
| "truthy (JNum n) = (n \<noteq> 0)"
| "truthy (JStr s) = (s \<noteq> [])"
| "truthy (JArr xs) = True"
| "truthy (JObj kvs) = True"

text \<open>
  Reading one of the properties \<^verbatim>\<open>action\<close>, \<^verbatim>\<open>data\<close>, \<^verbatim>\<open>message\<close>, \<^verbatim>\<open>locale\<close>,
  \<^verbatim>\<open>currency\<close> of a value that is neither \<^verbatim>\<open>null\<close> nor \<^verbatim>\<open>undefined\<close>. None of these
  names is a property of a primitive's wrapper, of an array or of \<^verbatim>\<open>Object.prototype\<close>.
\<close>

fun get_prop :: "jsval \<Rightarrow> string \<Rightarrow> jsval" where
  "get_prop (JObj kvs) k = (case map_of kvs k of Some v \<Rightarrow> v | None \<Rightarrow> JUndefined)"
| "get_prop v k = JUndefined"

text \<open>
  Object destructuring \<^verbatim>\<open>const { action, ... } = v\<close>: a \<^verbatim>\<open>TypeError\<close> on \<^verbatim>\<open>null\<close> and
  \<^verbatim>\<open>undefined\<close>, property reads otherwise.
\<close>

fun destructure :: "jsval \<Rightarrow> js_error + (string \<Rightarrow> jsval)" where
  "destructure JUndefined = Inl TypeError"
| "destructure JNull = Inl TypeError"
| "destructure v = Inr (get_prop v)"

text \<open>A configuration field of string type: \<^verbatim>\<open>undefined\<close> when the host left it out.\<close>

definition str_or_undefined :: "string option \<Rightarrow> jsval" where
  "str_or_undefined s = (case s of None \<Rightarrow> JUndefined | Some x \<Rightarrow> JStr x)"

definition truthy_field :: "string option \<Rightarrow> bool" where
  "truthy_field s = truthy (str_or_undefined s)"

text \<open>\<^verbatim>\<open>document.getElementById(x)\<close> converts its argument to a string.\<close>

definition id_string :: "string option \<Rightarrow> string" where
  "id_string s = (case s of None \<Rightarrow> ''undefined'' | Some x \<Rightarrow> x)"

definition startsWith :: "string \<Rightarrow> string \<Rightarrow> bool" where
  "startsWith s p = (take (length p) s = p)"

text \<open>
  Host callbacks are opaque functions, known by their identity. The SDK substitutes
  \<^verbatim>\<open>() => {}\<close> for a missing \<^verbatim>\<open>onError\<close> or \<^verbatim>\<open>onGameResult\<close>. Host callbacks are
  assumed to return normally and not to call back into the SDK.
\<close>

datatype callback = Noop | HostFn nat

text \<open>
  Everything the SDK does to the outside, in order: a \<^verbatim>\<open>postMessage\<close> on a window (the
  window, the message, the target origin) and a call of a host function.
\<close>

datatype effect = Posted nat jsval string | Called nat "jsval list"

record config =
  cfg_tenantName :: "string option"
  cfg_gameId :: "string option"
  cfg_containerId :: "string option"
  cfg_iframeUrl :: "string option"
  cfg_userId :: "string option"
  cfg_getUserBalance :: "nat option"
  cfg_onError :: "nat option"
  cfg_onGameResult :: "nat option"
  cfg_locale :: "string option"
  cfg_currency :: "string option"
  cfg_callbackUrl :: "string option"
  cfg_onGameLoad :: "nat option"

text \<open>How \<^verbatim>\<open>await getUserBalance(userId)\<close> ends.\<close>

datatype settled = Resolved jsval | Rejected

text \<open>The entry stored in \<^verbatim>\<open>this.games\<close>; the newer version stores more fields.\<close>

record game =
  iframe :: nat
  iframeUrl :: string
  userId :: jsval
  locale' :: jsval
  currency :: jsval
  onError :: callback
  onGameResult :: callback

record game2 = game +
  tenantName :: jsval
  gameId :: jsval
  callbackUrl :: jsval
  balance :: jsval
  ready :: bool

text \<open>The variables the \<^verbatim>\<open>iframe.onload\<close> arrow function closes over.\<close>

record load_closure =
  cl_gameId :: string
  cl_userId :: jsval
  cl_balance :: jsval
  cl_onGameLoad :: "nat option"

record load_closure2 = load_closure +
  cl_tenantName :: jsval
  cl_callbackUrl :: jsval

text \<open>
  An iframe element of the page. \<open>contentWindow\<close> is \<^verbatim>\<open>null\<close> while the element is not
  in the document; the window of element \<open>h\<close> is identified by \<open>h\<close>.
\<close>

record 'c iframe_el =
  src :: string
  parentElement :: "nat option"
  contentWindow :: "nat option"
  onload :: "'c option"

text \<open>
  A registered \<^verbatim>\<open>message\<close> listener: the identity of the function object that
  \<^verbatim>\<open>bind\<close> returned, and the arguments bound into it.
\<close>

record listener =
  callback_ref :: nat
  bound_args :: "string list"

record message_event =
  origin :: string
  source :: "nat option"
  data :: jsval

text \<open>
  The SDK instance together with the part of the browser it touches. \<open>url_origin\<close> stands
  for the platform's URL parser (\<^verbatim>\<open>new URL(u).origin\<close>, \<open>None\<close> where parsing fails);
  it is a parameter of the model.
\<close>

record ('g, 'c) world =
  games :: "(string \<times> 'g) list"
  defaultLocale :: string
  defaultCurrency :: string
  debug :: bool
  location_origin :: string
  url_origin :: "string \<Rightarrow> string option"
  getElementById :: "string \<Rightarrow> nat option"
  elements :: "nat \<Rightarrow> 'c iframe_el"
  next_element :: nat
  listeners :: "listener list"
  next_function :: nat
  trace :: "effect list"

definition detached :: "'c iframe_el" where
  "detached = \<lparr>src = [], parentElement = None, contentWindow = None, onload = None\<rparr>"

subsection \<open>Property lookup on the registry object\<close>

text \<open>
  \<^verbatim>\<open>this.games\<close> is a plain object literal, so \<^verbatim>\<open>this.games[id]\<close> also finds the
  properties inherited from \<^verbatim>\<open>Object.prototype\<close>; each of them is a truthy value without
  an \<^verbatim>\<open>iframe\<close> property.
\<close>

definition object_prototype_keys :: "string list" where
  "object_prototype_keys =
     [''constructor'', ''hasOwnProperty'', ''isPrototypeOf'', ''propertyIsEnumerable'',
      ''toLocaleString'', ''toString'', ''valueOf'', ''__proto__'', ''__defineGetter__'',
      ''__defineSetter__'', ''__lookupGetter__'', ''__lookupSetter__'']"

datatype 'g lookup = Missing | Inherited | Own 'g

definition get_game :: "('g, 'c) world \<Rightarrow> string \<Rightarrow> 'g lookup" where
  "get_game w k =
     (case map_of (games w) k of
        Some g \<Rightarrow> Own g
      | None \<Rightarrow> if k \<in> set object_prototype_keys then Inherited else Missing)"

definition invoke :: "callback \<Rightarrow> jsval list \<Rightarrow> ('g, 'c) world \<Rightarrow> ('g, 'c) world" where
  "invoke f args w =
     (case f of Noop \<Rightarrow> w | HostFn n \<Rightarrow> w\<lparr>trace := trace w @ [Called n args]\<rparr>)"

definition or_noop :: "nat option \<Rightarrow> callback" where
  "or_noop f = (case f of None \<Rightarrow> Noop | Some n \<Rightarrow> HostFn n)"

definition or_default :: "string option \<Rightarrow> string \<Rightarrow> jsval" where
  "or_default s d = (if truthy_field s then str_or_undefined s else JStr d)"

section \<open>The older version: one bound listener per game\<close>

text \<open>\<^verbatim>\<open>constructor(debug = false)\<close>, on a page with the given location, URL parser and DOM.\<close>

definition new_sdk ::
  "bool \<Rightarrow> string \<Rightarrow> (string \<Rightarrow> string option) \<Rightarrow> (string \<Rightarrow> nat option) \<Rightarrow> (game, load_closure) world"
where
  "new_sdk dbg loc parse byId =
     \<lparr>games = [], defaultLocale = ''en-US'', defaultCurrency = ''TZS'', debug = dbg,
      location_origin = loc, url_origin = parse, getElementById = byId,
      elements = (\<lambda>h. detached), next_element = 0, listeners = [], next_function = 0,
      trace = []\<rparr>"

text \<open>
  \<^verbatim>\<open>postMessage(gameId, data)\<close>. \<^verbatim>\<open>contentWindow.postMessage(data, targetOrigin)\<close> raises a
  \<^verbatim>\<open>SyntaxError\<close> when the target origin does not parse as a URL.
\<close>

definition postMessage ::
  "(game, 'c) world \<Rightarrow> string \<Rightarrow> jsval \<Rightarrow> (js_error + unit) \<times> (game, 'c) world"
where
  "postMessage w gid msg =
     (case get_game w gid of
        Own g \<Rightarrow>
          (case contentWindow (elements w (iframe g)) of
             None \<Rightarrow> (Inr (), w)
           | Some win \<Rightarrow>
               (case url_origin w (iframeUrl g) of
                  None \<Rightarrow> (Inl SyntaxError, w)
                | Some target \<Rightarrow> (Inr (), w\<lparr>trace := trace w @ [Posted win msg (iframeUrl g)]\<rparr>)))
      | Inherited \<Rightarrow> (Inr (), w)
      | Missing \<Rightarrow> (Inr (), w))"

text \<open>
  The body of \<^verbatim>\<open>iframe.onload\<close>. The arguments of the second \<^verbatim>\<open>postMessage\<close> are
  evaluated before the call: \<^verbatim>\<open>this.games[gameId].locale\<close> raises a \<^verbatim>\<open>TypeError\<close> when
  the game is no longer registered.
\<close>

definition setParentDomain_msg :: "string \<Rightarrow> jsval" where
  "setParentDomain_msg d = JObj [(''action'', JStr ''setParentDomain''), (''domain'', JStr d)]"

definition userDetails_msg :: "jsval \<Rightarrow> jsval \<Rightarrow> jsval \<Rightarrow> jsval \<Rightarrow> jsval" where
  "userDetails_msg uid bal loc cur =
     JObj [(''action'', JStr ''userDetails''), (''userId'', uid), (''balance'', bal),
           (''locale'', loc), (''currency'', cur)]"

definition iframe_onload ::
  "(game, 'c) world \<Rightarrow> load_closure \<Rightarrow> (js_error + unit) \<times> (game, 'c) world"
where
  "iframe_onload w cl =
     (case postMessage w (cl_gameId cl) (setParentDomain_msg (location_origin w)) of
        (Inl e, w1) \<Rightarrow> (Inl e, w1)
      | (Inr u, w1) \<Rightarrow>
          (case get_game w1 (cl_gameId cl) of
             Missing \<Rightarrow> (Inl TypeError, w1)
           | found \<Rightarrow>
               (case postMessage w1 (cl_gameId cl)
                       (userDetails_msg (cl_userId cl) (cl_balance cl)
                          (case found of Own g \<Rightarrow> locale' g | other \<Rightarrow> JUndefined)
                          (case found of Own g \<Rightarrow> currency g | other \<Rightarrow> JUndefined)) of
                  (Inl e, w2) \<Rightarrow> (Inl e, w2)
                | (Inr u, w2) \<Rightarrow>
                    (Inr (), case cl_onGameLoad cl of
                               None \<Rightarrow> w2
                             | Some f \<Rightarrow> invoke (HostFn f) [] w2))))"

text \<open>The browser delivers the \<^verbatim>\<open>load\<close> event of element \<open>h\<close> to its \<^verbatim>\<open>onload\<close> handler.\<close>

definition load_event ::
  "(game, load_closure) world \<Rightarrow> nat \<Rightarrow> (js_error + unit) \<times> (game, load_closure) world"
where
  "load_event w h =
     (case onload (elements w h) of
        None \<Rightarrow> (Inr (), w)
      | Some cl \<Rightarrow> iframe_onload w cl)"

text \<open>
  \<^verbatim>\<open>this.handleMessage.bind(this, gameId)\<close> allocates a new function object each time it
  is evaluated. \<^verbatim>\<open>addEventListener\<close> ignores a callback that is already registered;
  \<^verbatim>\<open>removeEventListener\<close> removes the listener whose callback is the very function given.
\<close>

definition bind_handleMessage :: "('g, 'c) world \<Rightarrow> string list \<Rightarrow> listener \<times> ('g, 'c) world" where
  "bind_handleMessage w args =
     (\<lparr>callback_ref = next_function w, bound_args = args\<rparr>,
      w\<lparr>next_function := Suc (next_function w)\<rparr>)"

definition addEventListener :: "('g, 'c) world \<Rightarrow> listener \<Rightarrow> ('g, 'c) world" where
  "addEventListener w l =
     (if callback_ref l \<in> set (map callback_ref (listeners w)) then w
      else w\<lparr>listeners := listeners w @ [l]\<rparr>)"

definition removeEventListener :: "('g, 'c) world \<Rightarrow> listener \<Rightarrow> ('g, 'c) world" where
  "removeEventListener w l =
     w\<lparr>listeners := filter (\<lambda>x. callback_ref x \<noteq> callback_ref l) (listeners w)\<rparr>"

subsection \<open>addGame\<close>

datatype add_outcome =
    InvalidGameId
  | AlreadyExists
  | ContainerNotFound
  | InvalidIframeUrl
  | BalanceNotFunction
  | MissingConfig
  | Added

text \<open>
  The synchronous checks of \<^verbatim>\<open>addGame\<close>, in the source's order; each failure logs its
  message and returns (console output is not part of the state: the outcome names the
  message). A game id is a string by its type, so \<^verbatim>\<open>typeof gameId !== "string"\<close> is the
  case of a missing id. On success: the game id, the container element, the URL and the
  balance function.
\<close>

definition addGame_validate ::
  "('g, 'c) world \<Rightarrow> config \<Rightarrow> add_outcome + (string \<times> nat \<times> string \<times> nat)"
where
  "addGame_validate w cfg =
     (case cfg_gameId cfg of
        None \<Rightarrow> Inl InvalidGameId
      | Some gid \<Rightarrow>
          if gid = [] then Inl InvalidGameId
          else if get_game w gid \<noteq> Missing then Inl AlreadyExists
          else
            (case getElementById w (id_string (cfg_containerId cfg)) of
               None \<Rightarrow> Inl ContainerNotFound
             | Some container \<Rightarrow>
                 (case cfg_iframeUrl cfg of
                    None \<Rightarrow> Inl InvalidIframeUrl
                  | Some url \<Rightarrow>
                      if startsWith url ''http'' then
                        (case cfg_getUserBalance cfg of
                           None \<Rightarrow> Inl BalanceNotFunction
                         | Some f \<Rightarrow> Inr (gid, container, url, f))
                      else Inl InvalidIframeUrl)))"

text \<open>
  \<^verbatim>\<open>document.createElement("iframe")\<close>, \<^verbatim>\<open>iframe.src = url\<close>,
  \<^verbatim>\<open>container.appendChild(iframe)\<close>. The new element gets a content window when it enters
  the document; its width, height and style are left out.
\<close>

definition append_iframe :: "('g, 'c) world \<Rightarrow> nat \<Rightarrow> string \<Rightarrow> nat \<times> ('g, 'c) world" where
  "append_iframe w container url =
     (next_element w,
      w\<lparr>elements := (elements w)
           (next_element w :=
              \<lparr>src = url, parentElement = Some container,
               contentWindow = Some (next_element w), onload = None\<rparr>),
        next_element := Suc (next_element w)\<rparr>)"

text \<open>The rest of \<^verbatim>\<open>addGame\<close>, run when the awaited balance has settled.\<close>

definition addGame_resume ::
  "(game, load_closure) world \<Rightarrow> config \<Rightarrow> string \<Rightarrow> nat \<Rightarrow> string \<Rightarrow> settled
     \<Rightarrow> (game, load_closure) world"
where
  "addGame_resume w cfg gid container url outcome =
     (let bal = (case outcome of Resolved v \<Rightarrow> v | Rejected \<Rightarrow> JNum 0);
          (h, w1) = append_iframe w container url;
          w2 = w1\<lparr>games := AList.update gid
                  \<lparr>iframe = h, iframeUrl = url, userId = str_or_undefined (cfg_userId cfg),
                   locale' = or_default (cfg_locale cfg) (defaultLocale w1),
                   currency = or_default (cfg_currency cfg) (defaultCurrency w1),
                   onError = or_noop (cfg_onError cfg),
                   onGameResult = or_noop (cfg_onGameResult cfg)\<rparr> (games w1)\<rparr>;
          w3 = w2\<lparr>elements := (elements w2)
                  (h := (elements w2 h)
                     \<lparr>onload := Some \<lparr>cl_gameId = gid,
                                      cl_userId = str_or_undefined (cfg_userId cfg),
                                      cl_balance = bal,
                                      cl_onGameLoad = cfg_onGameLoad cfg\<rparr>\<rparr>)\<rparr>;
          (l, w4) = bind_handleMessage w3 [gid]
      in addEventListener w4 l)"

text \<open>
  \<^verbatim>\<open>addGame\<close> when nothing else runs while the balance is awaited. The call of
  \<^verbatim>\<open>getUserBalance(userId)\<close> is an effect of the host's function.
\<close>

definition addGame ::
  "(game, load_closure) world \<Rightarrow> config \<Rightarrow> settled \<Rightarrow> add_outcome \<times> (game, load_closure) world"
where
  "addGame w cfg outcome =
     (case addGame_validate w cfg of
        Inl failure \<Rightarrow> (failure, w)
      | Inr (gid, container, url, f) \<Rightarrow>
          (Added,
           addGame_resume (invoke (HostFn f) [str_or_undefined (cfg_userId cfg)] w)
             cfg gid container url outcome))"

text \<open>
  \<^verbatim>\<open>addGame\<close> with other code of the page running while the balance is awaited:
  \<open>meanwhile\<close> is what that code does to the state between the call of
  \<^verbatim>\<open>getUserBalance\<close> and the resumption. The container was looked up before the
  suspension. \<open>addGame\<close> is the case where nothing runs in between.
\<close>

definition addGame_interleaved ::
  "(game, load_closure) world \<Rightarrow> config
     \<Rightarrow> ((game, load_closure) world \<Rightarrow> (game, load_closure) world) \<Rightarrow> settled
     \<Rightarrow> add_outcome \<times> (game, load_closure) world"
where
  "addGame_interleaved w cfg meanwhile outcome =
     (case addGame_validate w cfg of
        Inl failure \<Rightarrow> (failure, w)
      | Inr (gid, container, url, f) \<Rightarrow>
          (Added,
           addGame_resume
             (meanwhile (invoke (HostFn f) [str_or_undefined (cfg_userId cfg)] w))
             cfg gid container url outcome))"

subsection \<open>removeGame\<close>

datatype remove_outcome = NotFound | Removed

text \<open>
  \<^verbatim>\<open>game.iframe.parentElement.removeChild(game.iframe)\<close> raises a \<^verbatim>\<open>TypeError\<close> when
  \<^verbatim>\<open>game.iframe\<close> is \<^verbatim>\<open>undefined\<close> or the element has no parent. The listener handed to
  \<^verbatim>\<open>removeEventListener\<close> is a newly bound function.
\<close>

definition removeGame ::
  "(game, 'c) world \<Rightarrow> string \<Rightarrow> (js_error + remove_outcome) \<times> (game, 'c) world"
where
  "removeGame w gid =
     (case get_game w gid of
        Missing \<Rightarrow> (Inr NotFound, w)
      | Inherited \<Rightarrow> (Inl TypeError, w)
      | Own g \<Rightarrow>
          (case parentElement (elements w (iframe g)) of
             None \<Rightarrow> (Inl TypeError, w)
           | Some p \<Rightarrow>
               (let w1 = w\<lparr>elements := (elements w)
                             (iframe g := (elements w (iframe g))
                                \<lparr>parentElement := None, contentWindow := None\<rparr>)\<rparr>;
                    w2 = w1\<lparr>games := AList.delete gid (games w1)\<rparr>;
                    (l, w3) = bind_handleMessage w2 [gid]
                in (Inr Removed, removeEventListener w3 l))))"

subsection \<open>handleMessage\<close>

text \<open>
  \<^verbatim>\<open>new URL(game.iframeUrl)\<close> raises a \<^verbatim>\<open>TypeError\<close> when the URL does not parse, and
  destructuring \<^verbatim>\<open>event.data\<close> raises one when the data is \<^verbatim>\<open>null\<close> or \<^verbatim>\<open>undefined\<close>.
  \<^verbatim>\<open>game.locale = locale\<close> writes to the registered object.
\<close>

definition handleMessage ::
  "(game, 'c) world \<Rightarrow> string \<Rightarrow> message_event \<Rightarrow> (js_error + unit) \<times> (game, 'c) world"
where
  "handleMessage w gid event =
     (case get_game w gid of
        Missing \<Rightarrow> (Inr (), w)
      | Inherited \<Rightarrow> (Inl TypeError, w)
      | Own g \<Rightarrow>
          (case url_origin w (iframeUrl g) of
             None \<Rightarrow> (Inl TypeError, w)
           | Some allowedOrigin \<Rightarrow>
               if origin event \<noteq> allowedOrigin then (Inr (), w)
               else
                 (case destructure (data event) of
                    Inl e \<Rightarrow> (Inl e, w)
                  | Inr field \<Rightarrow>
                      (let w1 = (if field ''action'' = JStr ''gameResult''
                                 then invoke (onGameResult g) [field ''data''] w else w);
                           w2 = (if field ''action'' = JStr ''updateLocaleAndCurrency''
                                 then w1\<lparr>games := AList.update gid
                                        (g\<lparr>locale' := (if truthy (field ''locale'')
                                                        then field ''locale'' else locale' g),
                                           currency := (if truthy (field ''currency'')
                                                        then field ''currency'' else currency g)\<rparr>)
                                        (games w1)\<rparr>
                                 else w1);
                           w3 = (if field ''action'' = JStr ''error''
                                 then invoke (onError g) [field ''message''] w2 else w2)
                       in (Inr (), w3)))))"

text \<open>
  The window dispatches a \<^verbatim>\<open>message\<close> event to every registered listener in order of
  registration; an exception in one listener is reported and the others still run.
\<close>

fun dispatch ::
  "listener list \<Rightarrow> (game, 'c) world \<Rightarrow> message_event \<Rightarrow> js_error list \<times> (game, 'c) world"
where
  "dispatch [] w event = ([], w)"
| "dispatch (l # ls) w event =
     (case (case bound_args l of
              [gid] \<Rightarrow> handleMessage w gid event
            | other \<Rightarrow> (Inr (), w)) of
        (r, w1) \<Rightarrow>
          (case dispatch ls w1 event of
             (errs, w2) \<Rightarrow> ((case r of Inl e \<Rightarrow> [e] | Inr u \<Rightarrow> []) @ errs, w2)))"

definition window_message ::
  "(game, 'c) world \<Rightarrow> message_event \<Rightarrow> js_error list \<times> (game, 'c) world"
where
  "window_message w event = dispatch (listeners w) w event"

text \<open>
  A host program as a sequence of completed calls of \<^verbatim>\<open>addGame\<close> and \<^verbatim>\<open>removeGame\<close>, and
  the number of its \<^verbatim>\<open>addGame\<close> calls that registered a game.
\<close>

datatype host_call = AddGame config settled | RemoveGame string

fun run_calls :: "(game, load_closure) world \<Rightarrow> host_call list \<Rightarrow> (game, load_closure) world" where
  "run_calls w [] = w"
| "run_calls w (AddGame cfg outcome # cs) = run_calls (snd (addGame w cfg outcome)) cs"
| "run_calls w (RemoveGame gid # cs) = run_calls (snd (removeGame w gid)) cs"

fun games_added :: "(game, load_closure) world \<Rightarrow> host_call list \<Rightarrow> nat" where
  "games_added w [] = 0"
| "games_added w (AddGame cfg outcome # cs) =
     (if fst (addGame w cfg outcome) = Added then 1 else 0) +
     games_added (snd (addGame w cfg outcome)) cs"
| "games_added w (RemoveGame gid # cs) = games_added (snd (removeGame w gid)) cs"

section \<open>The newer version: one listener, routing by the sending window\<close>

text \<open>
  \<^verbatim>\<open>constructor(options = {})\<close> registers the single bound \<^verbatim>\<open>_handleMessage\<close>. The
  developer inspector (\<^verbatim>\<open>options.inspector\<close>) only keeps and renders a log of its own;
  the model is of an instance created without it.
\<close>

definition v2_new_sdk ::
  "bool \<Rightarrow> string \<Rightarrow> (string \<Rightarrow> string option) \<Rightarrow> (string \<Rightarrow> nat option)
     \<Rightarrow> (game2, load_closure2) world"
where
  "v2_new_sdk dbg loc parse byId =
     \<lparr>games = [], defaultLocale = ''en-US'', defaultCurrency = ''TZS'', debug = dbg,
      location_origin = loc, url_origin = parse, getElementById = byId,
      elements = (\<lambda>h. detached), next_element = 0,
      listeners = [\<lparr>callback_ref = 0, bound_args = []\<rparr>], next_function = 1,
      trace = []\<rparr>"

text \<open>\<^verbatim>\<open>_send(gameId, action, data)\<close> posts \<^verbatim>\<open>{ action, data }\<close> with target origin \<^verbatim>\<open>"*"\<close>.\<close>

definition v2_send :: "(game2, 'c) world \<Rightarrow> string \<Rightarrow> string \<Rightarrow> jsval \<Rightarrow> (game2, 'c) world" where
  "v2_send w gid action payload =
     (case get_game w gid of
        Own g \<Rightarrow>
          (case contentWindow (elements w (iframe g)) of
             None \<Rightarrow> w
           | Some win \<Rightarrow>
               w\<lparr>trace := trace w @
                    [Posted win (JObj [(''action'', JStr action), (''data'', payload)]) ''*'']\<rparr>)
      | Inherited \<Rightarrow> w
      | Missing \<Rightarrow> w)"

definition v2_userDetails ::
  "jsval \<Rightarrow> jsval \<Rightarrow> jsval \<Rightarrow> jsval \<Rightarrow> jsval \<Rightarrow> jsval \<Rightarrow> jsval \<Rightarrow> jsval"
where
  "v2_userDetails tenant gid uid bal cb loc cur =
     JObj [(''tenantName'', tenant), (''gameId'', gid), (''userId'', uid), (''balance'', bal),
           (''callbackUrl'', cb), (''locale'', loc), (''currency'', cur)]"

definition v2_iframe_onload ::
  "(game2, 'c) world \<Rightarrow> load_closure2 \<Rightarrow> (js_error + unit) \<times> (game2, 'c) world"
where
  "v2_iframe_onload w cl =
     (let w1 = v2_send w (cl_gameId cl) ''setParentDomain'' (JStr (location_origin w)) in
      case get_game w1 (cl_gameId cl) of
        Missing \<Rightarrow> (Inl TypeError, w1)
      | found \<Rightarrow>
          (let w2 = v2_send w1 (cl_gameId cl) ''userDetails''
                      (v2_userDetails (cl_tenantName cl) (JStr (cl_gameId cl)) (cl_userId cl)
                         (cl_balance cl) (cl_callbackUrl cl)
                         (case found of Own g \<Rightarrow> locale' g | other \<Rightarrow> JUndefined)
                         (case found of Own g \<Rightarrow> currency g | other \<Rightarrow> JUndefined))
           in (Inr (), case cl_onGameLoad cl of
                         None \<Rightarrow> w2
                       | Some f \<Rightarrow> invoke (HostFn f) [] w2)))"

definition v2_load_event ::
  "(game2, load_closure2) world \<Rightarrow> nat \<Rightarrow> (js_error + unit) \<times> (game2, load_closure2) world"
where
  "v2_load_event w h =
     (case onload (elements w h) of
        None \<Rightarrow> (Inr (), w)
      | Some cl \<Rightarrow> v2_iframe_onload w cl)"

subsection \<open>addGame\<close>

text \<open>The synchronous checks: the game id, the container element and the URL on success.\<close>

definition v2_addGame_validate ::
  "('g, 'c) world \<Rightarrow> config \<Rightarrow> add_outcome + (string \<times> nat \<times> string)"
where
  "v2_addGame_validate w cfg =
     (if truthy_field (cfg_tenantName cfg) \<and> truthy_field (cfg_gameId cfg) \<and>
         truthy_field (cfg_containerId cfg) \<and> truthy_field (cfg_iframeUrl cfg) \<and>
         truthy_field (cfg_callbackUrl cfg)
      then
        (case (cfg_gameId cfg, cfg_containerId cfg, cfg_iframeUrl cfg) of
           (Some gid, Some cid, Some url) \<Rightarrow>
             if get_game w gid \<noteq> Missing then Inl AlreadyExists
             else
               (case getElementById w cid of
                  None \<Rightarrow> Inl ContainerNotFound
                | Some container \<Rightarrow> Inr (gid, container, url))
         | other \<Rightarrow> Inl MissingConfig)
      else Inl MissingConfig)"

text \<open>
  \<^verbatim>\<open>await getUserBalance(userId)\<close> inside \<^verbatim>\<open>try\<close>: calling a missing function raises
  inside the \<^verbatim>\<open>try\<close> as well.
\<close>

definition v2_getUserBalance ::
  "('g, 'c) world \<Rightarrow> config \<Rightarrow> settled \<Rightarrow> settled \<times> ('g, 'c) world"
where
  "v2_getUserBalance w cfg outcome =
     (case cfg_getUserBalance cfg of
        None \<Rightarrow> (Rejected, w)
      | Some f \<Rightarrow> (outcome, invoke (HostFn f) [str_or_undefined (cfg_userId cfg)] w))"

definition v2_addGame_resume ::
  "(game2, load_closure2) world \<Rightarrow> config \<Rightarrow> string \<Rightarrow> nat \<Rightarrow> string \<Rightarrow> settled
     \<Rightarrow> (game2, load_closure2) world"
where
  "v2_addGame_resume w cfg gid container url outcome =
     (let bal = (case outcome of Resolved v \<Rightarrow> v | Rejected \<Rightarrow> JNum 0);
          (h, w1) = append_iframe w container url;
          w2 = w1\<lparr>games := AList.update gid
                  \<lparr>iframe = h, iframeUrl = url, userId = str_or_undefined (cfg_userId cfg),
                   locale' = or_default (cfg_locale cfg) (defaultLocale w1),
                   currency = or_default (cfg_currency cfg) (defaultCurrency w1),
                   onError = or_noop (cfg_onError cfg),
                   onGameResult = or_noop (cfg_onGameResult cfg),
                   tenantName = str_or_undefined (cfg_tenantName cfg),
                   gameId = JStr gid,
                   callbackUrl = str_or_undefined (cfg_callbackUrl cfg),
                   balance = bal, ready = False\<rparr> (games w1)\<rparr>
      in w2\<lparr>elements := (elements w2)
             (h := (elements w2 h)
                \<lparr>onload := Some \<lparr>cl_gameId = gid,
                                 cl_userId = str_or_undefined (cfg_userId cfg),
                                 cl_balance = bal,
                                 cl_onGameLoad = cfg_onGameLoad cfg,
                                 cl_tenantName = str_or_undefined (cfg_tenantName cfg),
                                 cl_callbackUrl = str_or_undefined (cfg_callbackUrl cfg)\<rparr>\<rparr>)\<rparr>)"

definition v2_addGame ::
  "(game2, load_closure2) world \<Rightarrow> config \<Rightarrow> settled
     \<Rightarrow> add_outcome \<times> (game2, load_closure2) world"
where
  "v2_addGame w cfg outcome =
     (case v2_addGame_validate w cfg of
        Inl failure \<Rightarrow> (failure, w)
      | Inr (gid, container, url) \<Rightarrow>
          (case v2_getUserBalance w cfg outcome of
             (settled, w1) \<Rightarrow> (Added, v2_addGame_resume w1 cfg gid container url settled)))"

subsection \<open>_handleMessage\<close>

text \<open>
  \<^verbatim>\<open>Object.values\<close> lists the own properties with the array-index keys first, in
  ascending numeric order, and then the other keys in order of creation.
\<close>

definition dec_value :: "string \<Rightarrow> nat" where
  "dec_value s = foldl (\<lambda>n c. 10 * n + (of_char c - 48)) 0 s"

definition is_array_index :: "string \<Rightarrow> bool" where
  "is_array_index s =
     (s \<noteq> [] \<and> list_all (\<lambda>c. c \<in> set ''0123456789'') s \<and>
      (s = ''0'' \<or> take 1 s \<noteq> ''0'') \<and> dec_value s < 4294967295)"

definition own_properties :: "(string \<times> 'g) list \<Rightarrow> (string \<times> 'g) list" where
  "own_properties kvs =
     sort_key (\<lambda>kv. dec_value (fst kv)) (filter (\<lambda>kv. is_array_index (fst kv)) kvs) @
     filter (\<lambda>kv. \<not> is_array_index (fst kv)) kvs"

text \<open>
  The handler: \<^verbatim>\<open>event.data || {}\<close>, the early return on a falsy \<^verbatim>\<open>action\<close>, the search
  for the game whose \<^verbatim>\<open>iframe.contentWindow\<close> is \<^verbatim>\<open>event.source\<close>, and the \<^verbatim>\<open>switch\<close>.
\<close>

definition v2_handleMessage ::
  "(game2, 'c) world \<Rightarrow> message_event \<Rightarrow> (js_error + unit) \<times> (game2, 'c) world"
where
  "v2_handleMessage w event =
     (let payload = (if truthy (data event) then data event else JObj []);
          action = get_prop payload ''action''
      in if truthy action then
           (case find (\<lambda>kv. contentWindow (elements w (iframe (snd kv))) = source event)
                   (own_properties (games w)) of
              None \<Rightarrow> (Inr (), w)
            | Some (k, g) \<Rightarrow>
                if action = JStr ''gameLoaded''
                then (Inr (), w\<lparr>games := AList.update k (g\<lparr>ready := True\<rparr>) (games w)\<rparr>)
                else if action = JStr ''gameResult''
                then (Inr (), invoke (onGameResult g) [get_prop payload ''data''] w)
                else if action = JStr ''error''
                then (Inr (), invoke (onError g) [get_prop payload ''message''] w)
                else (Inr (), w))
         else (Inr (), w))"

text \<open>The window delivers a \<^verbatim>\<open>message\<close> event to each registered listener.\<close>

fun v2_dispatch ::
  "listener list \<Rightarrow> (game2, 'c) world \<Rightarrow> message_event \<Rightarrow> js_error list \<times> (game2, 'c) world"
where
  "v2_dispatch [] w event = ([], w)"
| "v2_dispatch (l # ls) w event =
     (case v2_handleMessage w event of
        (r, w1) \<Rightarrow>
          (case v2_dispatch ls w1 event of
             (errs, w2) \<Rightarrow> ((case r of Inl e \<Rightarrow> [e] | Inr u \<Rightarrow> []) @ errs, w2)))"

definition v2_window_message ::
  "(game2, 'c) world \<Rightarrow> message_event \<Rightarrow> js_error list \<times> (game2, 'c) world"
where
  "v2_window_message w event = v2_dispatch (listeners w) w event"

section \<open>A concrete page\<close>

text \<open>
  A host page at \<^verbatim>\<open>https://host.example\<close> with two containers, and two games served from
  one origin. \<open>example_url_origin\<close> gives the URL parser's answer on the two game URLs.
\<close>

definition example_url_origin :: "string \<Rightarrow> string option" where
  "example_url_origin u =
     (if u = ''https://games.example.com/a'' then Some ''https://games.example.com''
      else if u = ''https://games.example.com/b'' then Some ''https://games.example.com''
      else None)"

definition example_dom :: "string \<Rightarrow> nat option" where
  "example_dom i = (if i = ''slotA'' then Some 0 else if i = ''slotB'' then Some 1 else None)"

definition example_page :: "(game, load_closure) world" where
  "example_page = new_sdk False ''https://host.example'' example_url_origin example_dom"

definition v2_example_page :: "(game2, load_closure2) world" where
  "v2_example_page = v2_new_sdk False ''https://host.example'' example_url_origin example_dom"

definition config_a :: config where
  "config_a =
     \<lparr>cfg_tenantName = Some ''tenant1'', cfg_gameId = Some ''g1'',
      cfg_containerId = Some ''slotA'', cfg_iframeUrl = Some ''https://games.example.com/a'',
      cfg_userId = Some ''u1'', cfg_getUserBalance = Some 1, cfg_onError = Some 2,
      cfg_onGameResult = Some 3, cfg_locale = None, cfg_currency = Some ''USD'',
      cfg_callbackUrl = Some ''https://host.example/cb'', cfg_onGameLoad = Some 4\<rparr>"

definition config_b :: config where
  "config_b =
     \<lparr>cfg_tenantName = Some ''tenant1'', cfg_gameId = Some ''g2'',
      cfg_containerId = Some ''slotB'', cfg_iframeUrl = Some ''https://games.example.com/b'',
      cfg_userId = Some ''u1'', cfg_getUserBalance = Some 11, cfg_onError = Some 12,
      cfg_onGameResult = Some 13, cfg_locale = Some ''sw-TZ'', cfg_currency = None,
      cfg_callbackUrl = Some ''https://host.example/cb'', cfg_onGameLoad = Some 14\<rparr>"

text \<open>The page after \<^verbatim>\<open>addGame(config_a)\<close>, and after \<^verbatim>\<open>addGame(config_b)\<close> as well.\<close>

definition one_game :: "(game, load_closure) world" where
  "one_game = snd (addGame example_page config_a (Resolved (JNum 50)))"

definition two_games :: "(game, load_closure) world" where
  "two_games = snd (addGame one_game config_b (Resolved (JNum 50)))"

definition v2_one_game :: "(game2, load_closure2) world" where
  "v2_one_game = snd (v2_addGame v2_example_page config_a (Resolved (JNum 50)))"

definition v2_two_games :: "(game2, load_closure2) world" where
  "v2_two_games = snd (v2_addGame v2_one_game config_b (Resolved (JNum 50)))"

section \<open>Facts about the model\<close>

subsection \<open>Unfolding the model\<close>

lemmas model_defs = new_sdk_def v2_new_sdk_def postMessage_def iframe_onload_def load_event_def
  bind_handleMessage_def addEventListener_def removeEventListener_def addGame_validate_def
  append_iframe_def addGame_resume_def addGame_def removeGame_def handleMessage_def
  window_message_def v2_send_def v2_iframe_onload_def v2_load_event_def v2_addGame_validate_def
  v2_getUserBalance_def v2_addGame_resume_def v2_addGame_def v2_handleMessage_def
  v2_window_message_def get_game_def invoke_def or_noop_def or_default_def
  str_or_undefined_def truthy_field_def id_string_def startsWith_def
  setParentDomain_msg_def userDetails_msg_def v2_userDetails_def object_prototype_keys_def
  detached_def Let_def

lemmas example_defs = example_url_origin_def example_dom_def example_page_def
  v2_example_page_def config_a_def config_b_def

subsection \<open>Registry lookup and host calls\<close>

lemma get_game_Own: "map_of (games w) k = Some g \<Longrightarrow> get_game w k = Own g"
  by (simp add: get_game_def)

lemma get_game_Own_iff: "get_game w k = Own g \<longleftrightarrow> map_of (games w) k = Some g"
  by (auto simp: get_game_def split: option.splits)

lemma get_game_Missing_iff:
  "get_game w k = Missing \<longleftrightarrow> map_of (games w) k = None \<and> k \<notin> set object_prototype_keys"
  by (auto simp: get_game_def split: option.splits)

lemma get_game_trace_update [simp]: "get_game (w\<lparr>trace := t\<rparr>) k = get_game w k"
  by (simp add: get_game_def)

lemma invoke_fields [simp]:
  "games (invoke f args w) = games w"
  "elements (invoke f args w) = elements w"
  "next_element (invoke f args w) = next_element w"
  "listeners (invoke f args w) = listeners w"
  "next_function (invoke f args w) = next_function w"
  "url_origin (invoke f args w) = url_origin w"
  "location_origin (invoke f args w) = location_origin w"
  "getElementById (invoke f args w) = getElementById w"
  "defaultLocale (invoke f args w) = defaultLocale w"
  "defaultCurrency (invoke f args w) = defaultCurrency w"
  by (simp_all add: invoke_def split: callback.splits)

lemma invoke_trace [simp]:
  "trace (invoke (HostFn n) args w) = trace w @ [Called n args]"
  "trace (invoke Noop args w) = trace w"
  by (simp_all add: invoke_def)

lemma get_game_invoke [simp]: "get_game (invoke f args w) k = get_game w k"
  by (simp add: get_game_def)

subsection \<open>What addGame accepts and what it stores\<close>

lemma addGame_validate_Inr:
  "addGame_validate w cfg = Inr (gid, c, url, f) \<Longrightarrow>
     cfg_gameId cfg = Some gid \<and> gid \<noteq> [] \<and> get_game w gid = Missing \<and>
     getElementById w (id_string (cfg_containerId cfg)) = Some c \<and>
     cfg_iframeUrl cfg = Some url \<and> startsWith url ''http'' \<and> cfg_getUserBalance cfg = Some f"
  by (auto simp: addGame_validate_def split: option.splits if_splits)

lemma addGame_validate_not_Added: "addGame_validate w cfg \<noteq> Inl Added"
  by (auto simp: addGame_validate_def split: option.splits if_splits)

lemma addGame_Added:
  assumes "addGame w cfg outcome = (Added, w1)"
  obtains gid c url f where "addGame_validate w cfg = Inr (gid, c, url, f)"
    and "w1 = addGame_resume (invoke (HostFn f) [str_or_undefined (cfg_userId cfg)] w) cfg gid c url outcome"
  using assms addGame_validate_not_Added [of w cfg]
  by (auto simp: addGame_def split: sum.splits)

lemma addGame_resume_games:
  "games (addGame_resume w cfg gid c url outcome) =
     AList.update gid
       \<lparr>iframe = next_element w, iframeUrl = url, userId = str_or_undefined (cfg_userId cfg),
        locale' = or_default (cfg_locale cfg) (defaultLocale w),
        currency = or_default (cfg_currency cfg) (defaultCurrency w),
        onError = or_noop (cfg_onError cfg),
        onGameResult = or_noop (cfg_onGameResult cfg)\<rparr> (games w)"
  by (simp add: addGame_resume_def append_iframe_def bind_handleMessage_def
      addEventListener_def Let_def)

lemma addGame_resume_elements:
  "elements (addGame_resume w cfg gid c url outcome) =
     (elements w)(next_element w :=
        \<lparr>src = url, parentElement = Some c, contentWindow = Some (next_element w),
         onload = Some \<lparr>cl_gameId = gid, cl_userId = str_or_undefined (cfg_userId cfg),
                        cl_balance = (case outcome of Resolved v \<Rightarrow> v | Rejected \<Rightarrow> JNum 0),
                        cl_onGameLoad = cfg_onGameLoad cfg\<rparr>\<rparr>)"
  by (simp add: addGame_resume_def append_iframe_def bind_handleMessage_def
      addEventListener_def Let_def)

lemma addGame_resume_trace: "trace (addGame_resume w cfg gid c url outcome) = trace w"
  by (simp add: addGame_resume_def append_iframe_def bind_handleMessage_def
      addEventListener_def Let_def)

lemma v2_addGame_validate_Inr:
  "v2_addGame_validate w cfg = Inr (gid, c, url) \<Longrightarrow>
     cfg_gameId cfg = Some gid \<and> gid \<noteq> [] \<and> get_game w gid = Missing \<and>
     (\<exists>cid. cfg_containerId cfg = Some cid \<and> getElementById w cid = Some c) \<and>
     cfg_iframeUrl cfg = Some url \<and> truthy_field (cfg_tenantName cfg) \<and>
     truthy_field (cfg_callbackUrl cfg)"
  by (auto simp: v2_addGame_validate_def truthy_field_def str_or_undefined_def
      split: option.splits if_splits)

lemma v2_addGame_resume_games:
  "games (v2_addGame_resume w cfg gid c url outcome) =
     AList.update gid
       \<lparr>iframe = next_element w, iframeUrl = url, userId = str_or_undefined (cfg_userId cfg),
        locale' = or_default (cfg_locale cfg) (defaultLocale w),
        currency = or_default (cfg_currency cfg) (defaultCurrency w),
        onError = or_noop (cfg_onError cfg),
        onGameResult = or_noop (cfg_onGameResult cfg),
        tenantName = str_or_undefined (cfg_tenantName cfg), gameId = JStr gid,
        callbackUrl = str_or_undefined (cfg_callbackUrl cfg),
        balance = (case outcome of Resolved v \<Rightarrow> v | Rejected \<Rightarrow> JNum 0),
        ready = False\<rparr> (games w)"
  by (simp add: v2_addGame_resume_def append_iframe_def Let_def)

lemma v2_addGame_resume_elements:
  "elements (v2_addGame_resume w cfg gid c url outcome) =
     (elements w)(next_element w :=
        \<lparr>src = url, parentElement = Some c, contentWindow = Some (next_element w),
         onload = Some \<lparr>cl_gameId = gid, cl_userId = str_or_undefined (cfg_userId cfg),
                        cl_balance = (case outcome of Resolved v \<Rightarrow> v | Rejected \<Rightarrow> JNum 0),
                        cl_onGameLoad = cfg_onGameLoad cfg,
                        cl_tenantName = str_or_undefined (cfg_tenantName cfg),
                        cl_callbackUrl = str_or_undefined (cfg_callbackUrl cfg)\<rparr>\<rparr>)"
  by (simp add: v2_addGame_resume_def append_iframe_def Let_def)

lemma v2_addGame_resume_trace: "trace (v2_addGame_resume w cfg gid c url outcome) = trace w"
  by (simp add: v2_addGame_resume_def append_iframe_def Let_def)

lemma v2_addGame_resume_listeners:
  "listeners (v2_addGame_resume w cfg gid c url outcome) = listeners w"
  by (simp add: v2_addGame_resume_def append_iframe_def Let_def)

subsection \<open>Sending\<close>

lemma postMessage_sent:
  "get_game w gid = Own g \<Longrightarrow> contentWindow (elements w (iframe g)) = Some win \<Longrightarrow>
   url_origin w (iframeUrl g) = Some target \<Longrightarrow>
     postMessage w gid msg = (Inr (), w\<lparr>trace := trace w @ [Posted win msg (iframeUrl g)]\<rparr>)"
  by (simp add: postMessage_def)

lemma v2_send_sent:
  "get_game w gid = Own g \<Longrightarrow> contentWindow (elements w (iframe g)) = Some win \<Longrightarrow>
     v2_send w gid action payload =
       w\<lparr>trace := trace w @
            [Posted win (JObj [(''action'', JStr action), (''data'', payload)]) ''*'']\<rparr>"
  by (simp add: v2_send_def)

subsection \<open>Messages that are dropped\<close>

lemma action_is_object:
  "get_prop d ''action'' = JStr a \<Longrightarrow> destructure d = Inr (get_prop d) \<and> truthy d"
  by (cases d) simp_all

lemma handleMessage_unregistered:
  "get_game w gid = Missing \<Longrightarrow> handleMessage w gid event = (Inr (), w)"
  by (simp add: handleMessage_def)

lemma handleMessage_other_origin:
  "get_game w gid = Own g \<Longrightarrow> url_origin w (iframeUrl g) = Some allowed \<Longrightarrow>
     allowed \<noteq> origin event \<Longrightarrow> handleMessage w gid event = (Inr (), w)"
  by (auto simp: handleMessage_def)

lemma dispatch_all_dropped:
  "(\<And>l gid. l \<in> set ls \<Longrightarrow> bound_args l = [gid] \<Longrightarrow> handleMessage w gid event = (Inr (), w))
     \<Longrightarrow> dispatch ls w event = ([], w)"
proof (induction ls)
  case Nil
  show ?case by simp
next
  case (Cons l ls)
  have first: "(case bound_args l of [gid] \<Rightarrow> handleMessage w gid event | other \<Rightarrow> (Inr (), w))
                 = (Inr (), w)"
    using Cons.prems [of l] by (auto split: list.splits)
  have rest: "dispatch ls w event = ([], w)"
    using Cons.prems by (intro Cons.IH) auto
  show ?case by (simp add: first rest)
qed

lemma set_own_properties: "set (own_properties kvs) = set kvs"
  by (auto simp: own_properties_def)

lemma v2_handleMessage_no_sender:
  assumes "\<And>kv. kv \<in> set (games v) \<Longrightarrow> contentWindow (elements v (iframe (snd kv))) \<noteq> source event"
  shows "v2_handleMessage v event = (Inr (), v)"
proof -
  have "find (\<lambda>kv. contentWindow (elements v (iframe (snd kv))) = source event)
          (own_properties (games v)) = None"
    using assms by (auto simp: find_None_iff set_own_properties)
  then show ?thesis by (simp add: v2_handleMessage_def Let_def)
qed

lemma v2_dispatch_all_dropped:
  "v2_handleMessage v event = (Inr (), v) \<Longrightarrow> v2_dispatch ls v event = ([], v)"
  by (induction ls) simp_all

subsection \<open>The concrete page\<close>

lemma one_game_g1:
  "map_of (games one_game) ''g1'' =
     Some \<lparr>iframe = 0, iframeUrl = ''https://games.example.com/a'', userId = JStr ''u1'',
           locale' = JStr ''en-US'', currency = JStr ''USD'', onError = HostFn 2,
           onGameResult = HostFn 3\<rparr>"
  by (simp add: one_game_def model_defs example_defs)

lemma one_game_element0:
  "elements one_game 0 =
     \<lparr>src = ''https://games.example.com/a'', parentElement = Some 0, contentWindow = Some 0,
      onload = Some \<lparr>cl_gameId = ''g1'', cl_userId = JStr ''u1'', cl_balance = JNum 50,
                     cl_onGameLoad = Some 4\<rparr>\<rparr>"
  by (simp add: one_game_def model_defs example_defs)

lemma one_game_trace: "trace one_game = [Called 1 [JStr ''u1'']]"
  by (simp add: one_game_def model_defs example_defs)

lemma one_game_location: "location_origin one_game = ''https://host.example''"
  by (simp add: one_game_def model_defs example_defs)

lemma one_game_url_origin: "url_origin one_game = example_url_origin"
  by (simp add: one_game_def model_defs example_defs)

lemma v2_one_game_g1:
  "map_of (games v2_one_game) ''g1'' =
     Some \<lparr>iframe = 0, iframeUrl = ''https://games.example.com/a'', userId = JStr ''u1'',
           locale' = JStr ''en-US'', currency = JStr ''USD'', onError = HostFn 2,
           onGameResult = HostFn 3, tenantName = JStr ''tenant1'', gameId = JStr ''g1'',
           callbackUrl = JStr ''https://host.example/cb'', balance = JNum 50,
           ready = False\<rparr>"
  by (simp add: v2_one_game_def model_defs example_defs)

lemma v2_one_game_element0:
  "elements v2_one_game 0 =
     \<lparr>src = ''https://games.example.com/a'', parentElement = Some 0, contentWindow = Some 0,
      onload = Some \<lparr>cl_gameId = ''g1'', cl_userId = JStr ''u1'', cl_balance = JNum 50,
                     cl_onGameLoad = Some 4, cl_tenantName = JStr ''tenant1'',
                     cl_callbackUrl = JStr ''https://host.example/cb''\<rparr>\<rparr>"
  by (simp add: v2_one_game_def model_defs example_defs)

lemma v2_one_game_trace: "trace v2_one_game = [Called 1 [JStr ''u1'']]"
  by (simp add: v2_one_game_def model_defs example_defs)

lemma v2_one_game_location: "location_origin v2_one_game = ''https://host.example''"
  by (simp add: v2_one_game_def model_defs example_defs)

section \<open>The handshake on the load signal\<close>

text \<open>
  The load signal right after a successful \<^verbatim>\<open>addGame\<close>: the two messages carry what the
  configuration and the settled balance gave, with the default locale and currency where
  the configuration has none.
\<close>

lemma addGame_resume_env:
  "url_origin (addGame_resume w cfg gid c url outcome) = url_origin w"
  "location_origin (addGame_resume w cfg gid c url outcome) = location_origin w"
  by (simp_all add: addGame_resume_def append_iframe_def bind_handleMessage_def
      addEventListener_def Let_def)

lemma v2_addGame_resume_env:
  "location_origin (v2_addGame_resume w cfg gid c url outcome) = location_origin w"
  by (simp add: v2_addGame_resume_def append_iframe_def Let_def)

lemma load_right_after_addGame:
  assumes add: "addGame w cfg outcome = (Added, w1)"
    and url: "cfg_iframeUrl cfg = Some url" and parses: "url_origin w url = Some target"
  shows "load_event w1 (next_element w) =
           (Inr (),
            w1\<lparr>trace := trace w1 @
                 [Posted (next_element w)
                    (JObj [(''action'', JStr ''setParentDomain''),
                           (''domain'', JStr (location_origin w))])
                    url,
                  Posted (next_element w)
                    (JObj [(''action'', JStr ''userDetails''),
                           (''userId'', str_or_undefined (cfg_userId cfg)),
                           (''balance'', case outcome of Resolved v \<Rightarrow> v | Rejected \<Rightarrow> JNum 0),
                           (''locale'', or_default (cfg_locale cfg) (defaultLocale w)),
                           (''currency'', or_default (cfg_currency cfg) (defaultCurrency w))])
                    url] @
                 (case cfg_onGameLoad cfg of None \<Rightarrow> [] | Some f \<Rightarrow> [Called f []])\<rparr>)"
proof -
  from add obtain gid c url' f where v: "addGame_validate w cfg = Inr (gid, c, url', f)"
    and w1: "w1 = addGame_resume (invoke (HostFn f) [str_or_undefined (cfg_userId cfg)] w)
                    cfg gid c url' outcome"
    by (rule addGame_Added)
  from addGame_validate_Inr [OF v] url have url': "url' = url" by simp
  let ?g = "\<lparr>iframe = next_element w, iframeUrl = url, userId = str_or_undefined (cfg_userId cfg),
        locale' = or_default (cfg_locale cfg) (defaultLocale w),
        currency = or_default (cfg_currency cfg) (defaultCurrency w),
        onError = or_noop (cfg_onError cfg),
        onGameResult = or_noop (cfg_onGameResult cfg)\<rparr>"
  let ?cl = "\<lparr>cl_gameId = gid, cl_userId = str_or_undefined (cfg_userId cfg),
              cl_balance = (case outcome of Resolved v \<Rightarrow> v | Rejected \<Rightarrow> JNum 0),
              cl_onGameLoad = cfg_onGameLoad cfg\<rparr>"
  have own: "get_game w1 gid = Own ?g"
    by (simp add: w1 url' get_game_Own_iff addGame_resume_games AList.update_conv)
  have el: "elements w1 (next_element w) =
        \<lparr>src = url, parentElement = Some c, contentWindow = Some (next_element w),
         onload = Some ?cl\<rparr>"
    by (simp add: w1 url' addGame_resume_elements)
  have env: "url_origin w1 url = Some target" "location_origin w1 = location_origin w"
    using parses by (simp_all add: w1 addGame_resume_env)
  have win: "contentWindow (elements w1 (iframe ?g)) = Some (next_element w)"
    by (simp add: el)
  have org: "url_origin w1 (iframeUrl ?g) = Some target"
    by (simp add: env)
  show ?thesis
    using own win org
    by (auto simp: load_event_def el iframe_onload_def postMessage_sent setParentDomain_msg_def
        userDetails_msg_def invoke_def env split: option.splits)
qed

lemma v2_addGame_Added:
  assumes "v2_addGame v cfg outcome = (Added, v1)"
  obtains gid c url where "v2_addGame_validate v cfg = Inr (gid, c, url)"
    and "v1 = v2_addGame_resume (snd (v2_getUserBalance v cfg outcome)) cfg gid c url
                (fst (v2_getUserBalance v cfg outcome))"
proof -
  have "v2_addGame_validate v cfg \<noteq> Inl Added"
    by (auto simp: v2_addGame_validate_def split: option.splits if_splits)
  with assms that show ?thesis
    by (auto simp: v2_addGame_def split: sum.splits prod.splits)
qed

lemma v2_getUserBalance_fields:
  "games (snd (v2_getUserBalance v cfg outcome)) = games v"
  "elements (snd (v2_getUserBalance v cfg outcome)) = elements v"
  "next_element (snd (v2_getUserBalance v cfg outcome)) = next_element v"
  "defaultLocale (snd (v2_getUserBalance v cfg outcome)) = defaultLocale v"
  "defaultCurrency (snd (v2_getUserBalance v cfg outcome)) = defaultCurrency v"
  "location_origin (snd (v2_getUserBalance v cfg outcome)) = location_origin v"
  by (simp_all add: v2_getUserBalance_def split: option.splits)

lemma v2_load_right_after_addGame:
  assumes add: "v2_addGame v cfg outcome = (Added, v1)" and id: "cfg_gameId cfg = Some gid"
  shows "v2_load_event v1 (next_element v) =
           (Inr (),
            v1\<lparr>trace := trace v1 @
                 [Posted (next_element v)
                    (JObj [(''action'', JStr ''setParentDomain''),
                           (''data'', JStr (location_origin v))])
                    ''*'',
                  Posted (next_element v)
                    (JObj [(''action'', JStr ''userDetails''),
                           (''data'',
                            JObj [(''tenantName'', str_or_undefined (cfg_tenantName cfg)),
                                  (''gameId'', JStr gid),
                                  (''userId'', str_or_undefined (cfg_userId cfg)),
                                  (''balance'',
                                   case fst (v2_getUserBalance v cfg outcome) of
                                     Resolved x \<Rightarrow> x | Rejected \<Rightarrow> JNum 0),
                                  (''callbackUrl'', str_or_undefined (cfg_callbackUrl cfg)),
                                  (''locale'', or_default (cfg_locale cfg) (defaultLocale v)),
                                  (''currency'',
                                   or_default (cfg_currency cfg) (defaultCurrency v))])])
                    ''*''] @
                 (case cfg_onGameLoad cfg of None \<Rightarrow> [] | Some f \<Rightarrow> [Called f []])\<rparr>)"
proof -
  let ?v0 = "snd (v2_getUserBalance v cfg outcome)"
  let ?bal = "case fst (v2_getUserBalance v cfg outcome) of Resolved x \<Rightarrow> x | Rejected \<Rightarrow> JNum 0"
  from add obtain gid' c url where val: "v2_addGame_validate v cfg = Inr (gid', c, url)"
    and v1: "v1 = v2_addGame_resume ?v0 cfg gid' c url (fst (v2_getUserBalance v cfg outcome))"
    by (rule v2_addGame_Added)
  from v2_addGame_validate_Inr [OF val] id have gid': "gid' = gid" by simp
  let ?g = "\<lparr>iframe = next_element v, iframeUrl = url, userId = str_or_undefined (cfg_userId cfg),
        locale' = or_default (cfg_locale cfg) (defaultLocale v),
        currency = or_default (cfg_currency cfg) (defaultCurrency v),
        onError = or_noop (cfg_onError cfg),
        onGameResult = or_noop (cfg_onGameResult cfg),
        tenantName = str_or_undefined (cfg_tenantName cfg), gameId = JStr gid,
        callbackUrl = str_or_undefined (cfg_callbackUrl cfg),
        balance = ?bal, ready = False\<rparr>"
  let ?cl = "\<lparr>cl_gameId = gid, cl_userId = str_or_undefined (cfg_userId cfg),
              cl_balance = ?bal, cl_onGameLoad = cfg_onGameLoad cfg,
              cl_tenantName = str_or_undefined (cfg_tenantName cfg),
              cl_callbackUrl = str_or_undefined (cfg_callbackUrl cfg)\<rparr>"
  have own: "get_game v1 gid = Own ?g"
    by (simp add: v1 gid' get_game_Own_iff v2_addGame_resume_games AList.update_conv
        v2_getUserBalance_fields)
  have el: "elements v1 (next_element v) =
        \<lparr>src = url, parentElement = Some c, contentWindow = Some (next_element v),
         onload = Some ?cl\<rparr>"
    by (simp add: v1 gid' v2_addGame_resume_elements v2_getUserBalance_fields)
  have env: "location_origin v1 = location_origin v"
    by (simp add: v1 v2_addGame_resume_env v2_getUserBalance_fields)
  have win: "contentWindow (elements v1 (iframe ?g)) = Some (next_element v)"
    by (simp add: el)
  show ?thesis
    using own win
    by (auto simp: v2_load_event_def el v2_iframe_onload_def v2_send_sent v2_userDetails_def
        invoke_def env Let_def split: option.splits)
qed

text \<open>
  Claim C1, as the code has it. When the iframe of a registered game fires its load
  event and has a content window, the handler posts exactly two messages to that window,
  \<^verbatim>\<open>setParentDomain\<close> with the host page's origin and then \<^verbatim>\<open>userDetails\<close>, and after
  both it calls \<^verbatim>\<open>onGameLoad\<close> once if the host supplied one; nothing else changes. In
  the older version \<^verbatim>\<open>userDetails\<close> carries the user id, the balance, the locale and the
  currency, the target origin is the game's URL, and that URL has to parse. In the newer
  version \<^verbatim>\<open>userDetails\<close> also carries the tenant name, the game id and the callback
  URL, and the target origin is \<^verbatim>\<open>"*"\<close>.
\<close>

theorem load_sends_handshake_then_onGameLoad:
  "(onload (elements w h) = Some cl \<and> get_game w (cl_gameId cl) = Own g \<and> iframe g = h \<and>
    contentWindow (elements w h) = Some win \<and> url_origin w (iframeUrl g) = Some target \<longrightarrow>
      load_event w h =
        (Inr (),
         w\<lparr>trace := trace w @
              [Posted win
                 (JObj [(''action'', JStr ''setParentDomain''),
                        (''domain'', JStr (location_origin w))])
                 (iframeUrl g),
               Posted win
                 (JObj [(''action'', JStr ''userDetails''), (''userId'', cl_userId cl),
                        (''balance'', cl_balance cl), (''locale'', locale' g),
                        (''currency'', currency g)])
                 (iframeUrl g)] @
              (case cl_onGameLoad cl of None \<Rightarrow> [] | Some f \<Rightarrow> [Called f []])\<rparr>)) \<and>
   (onload (elements v h') = Some cl2 \<and> get_game v (cl_gameId cl2) = Own g2 \<and> iframe g2 = h' \<and>
    contentWindow (elements v h') = Some win' \<longrightarrow>
      v2_load_event v h' =
        (Inr (),
         v\<lparr>trace := trace v @
              [Posted win'
                 (JObj [(''action'', JStr ''setParentDomain''),
                        (''data'', JStr (location_origin v))])
                 ''*'',
               Posted win'
                 (JObj [(''action'', JStr ''userDetails''),
                        (''data'',
                         JObj [(''tenantName'', cl_tenantName cl2),
                               (''gameId'', JStr (cl_gameId cl2)),
                               (''userId'', cl_userId cl2), (''balance'', cl_balance cl2),
                               (''callbackUrl'', cl_callbackUrl cl2),
                               (''locale'', locale' g2), (''currency'', currency g2)])])
                 ''*''] @
              (case cl_onGameLoad cl2 of None \<Rightarrow> [] | Some f \<Rightarrow> [Called f []])\<rparr>))"
proof (intro conjI impI)
  assume h: "onload (elements w h) = Some cl \<and> get_game w (cl_gameId cl) = Own g \<and> iframe g = h \<and>
    contentWindow (elements w h) = Some win \<and> url_origin w (iframeUrl g) = Some target"
  then show "load_event w h =
        (Inr (),
         w\<lparr>trace := trace w @
              [Posted win
                 (JObj [(''action'', JStr ''setParentDomain''),
                        (''domain'', JStr (location_origin w))])
                 (iframeUrl g),
               Posted win
                 (JObj [(''action'', JStr ''userDetails''), (''userId'', cl_userId cl),
                        (''balance'', cl_balance cl), (''locale'', locale' g),
                        (''currency'', currency g)])
                 (iframeUrl g)] @
              (case cl_onGameLoad cl of None \<Rightarrow> [] | Some f \<Rightarrow> [Called f []])\<rparr>)"
    by (auto simp: load_event_def iframe_onload_def postMessage_sent setParentDomain_msg_def
        userDetails_msg_def invoke_def split: option.splits)
next
  assume h: "onload (elements v h') = Some cl2 \<and> get_game v (cl_gameId cl2) = Own g2 \<and>
    iframe g2 = h' \<and> contentWindow (elements v h') = Some win'"
  then show "v2_load_event v h' =
        (Inr (),
         v\<lparr>trace := trace v @
              [Posted win'
                 (JObj [(''action'', JStr ''setParentDomain''),
                        (''data'', JStr (location_origin v))])
                 ''*'',
               Posted win'
                 (JObj [(''action'', JStr ''userDetails''),
                        (''data'',
                         JObj [(''tenantName'', cl_tenantName cl2),
                               (''gameId'', JStr (cl_gameId cl2)),
                               (''userId'', cl_userId cl2), (''balance'', cl_balance cl2),
                               (''callbackUrl'', cl_callbackUrl cl2),
                               (''locale'', locale' g2), (''currency'', currency g2)])])
                 ''*''] @
              (case cl_onGameLoad cl2 of None \<Rightarrow> [] | Some f \<Rightarrow> [Called f []])\<rparr>)"
    by (auto simp: v2_load_event_def v2_iframe_onload_def v2_send_sent v2_userDetails_def
        invoke_def Let_def split: option.splits)
qed

theorem load_sends_handshake_then_onGameLoad_witness:
  "load_event one_game 0 =
     (Inr (),
      one_game\<lparr>trace :=
        [Called 1 [JStr ''u1''],
         Posted 0 (JObj [(''action'', JStr ''setParentDomain''),
                         (''domain'', JStr ''https://host.example'')])
           ''https://games.example.com/a'',
         Posted 0 (JObj [(''action'', JStr ''userDetails''), (''userId'', JStr ''u1''),
                         (''balance'', JNum 50), (''locale'', JStr ''en-US''),
                         (''currency'', JStr ''USD'')])
           ''https://games.example.com/a'',
         Called 4 []]\<rparr>) \<and>
   v2_load_event v2_one_game 0 =
     (Inr (),
      v2_one_game\<lparr>trace :=
        [Called 1 [JStr ''u1''],
         Posted 0 (JObj [(''action'', JStr ''setParentDomain''),
                         (''data'', JStr ''https://host.example'')]) ''*'',
         Posted 0 (JObj [(''action'', JStr ''userDetails''),
                         (''data'',
                          JObj [(''tenantName'', JStr ''tenant1''), (''gameId'', JStr ''g1''),
                                (''userId'', JStr ''u1''), (''balance'', JNum 50),
                                (''callbackUrl'', JStr ''https://host.example/cb''),
                                (''locale'', JStr ''en-US''), (''currency'', JStr ''USD'')])])
           ''*'',
         Called 4 []]\<rparr>)"
proof -
  let ?cl = "\<lparr>cl_gameId = ''g1'', cl_userId = JStr ''u1'', cl_balance = JNum 50,
                     cl_onGameLoad = Some 4\<rparr>"
  let ?g = "\<lparr>iframe = 0, iframeUrl = ''https://games.example.com/a'', userId = JStr ''u1'',
           locale' = JStr ''en-US'', currency = JStr ''USD'', onError = HostFn 2,
           onGameResult = HostFn 3\<rparr>"
  let ?cl2 = "\<lparr>cl_gameId = ''g1'', cl_userId = JStr ''u1'', cl_balance = JNum 50,
                     cl_onGameLoad = Some 4, cl_tenantName = JStr ''tenant1'',
                     cl_callbackUrl = JStr ''https://host.example/cb''\<rparr>"
  let ?g2 = "\<lparr>iframe = 0, iframeUrl = ''https://games.example.com/a'', userId = JStr ''u1'',
           locale' = JStr ''en-US'', currency = JStr ''USD'', onError = HostFn 2,
           onGameResult = HostFn 3, tenantName = JStr ''tenant1'', gameId = JStr ''g1'',
           callbackUrl = JStr ''https://host.example/cb'', balance = JNum 50,
           ready = False\<rparr>"
  have a: "onload (elements one_game 0) = Some ?cl \<and> get_game one_game (cl_gameId ?cl) = Own ?g \<and>
    iframe ?g = 0 \<and> contentWindow (elements one_game 0) = Some 0 \<and>
    url_origin one_game (iframeUrl ?g) = Some ''https://games.example.com''"
    by (simp add: one_game_element0 get_game_Own_iff one_game_g1 one_game_url_origin
        example_url_origin_def)
  have b: "onload (elements v2_one_game 0) = Some ?cl2 \<and>
    get_game v2_one_game (cl_gameId ?cl2) = Own ?g2 \<and> iframe ?g2 = 0 \<and>
    contentWindow (elements v2_one_game 0) = Some 0"
    by (simp add: v2_one_game_element0 get_game_Own_iff v2_one_game_g1)
  from load_sends_handshake_then_onGameLoad
         [of one_game 0 ?cl ?g 0 "''https://games.example.com''" v2_one_game 0 ?cl2 ?g2 0] a b
  show ?thesis
    by (simp add: one_game_trace v2_one_game_trace one_game_location v2_one_game_location)
qed

text \<open>
  The claim as first stated has \<^verbatim>\<open>userDetails\<close> carry tenant and callback identifiers for
  every session. In the older version the message of a game whose configuration names a
  tenant and a callback URL carries neither.
\<close>

theorem userDetails_without_tenant_counterexample:
  "trace (snd (load_event one_game 0)) =
     [Called 1 [JStr ''u1''],
      Posted 0 (JObj [(''action'', JStr ''setParentDomain''),
                      (''domain'', JStr ''https://host.example'')])
        ''https://games.example.com/a'',
      Posted 0 (JObj [(''action'', JStr ''userDetails''), (''userId'', JStr ''u1''),
                      (''balance'', JNum 50), (''locale'', JStr ''en-US''),
                      (''currency'', JStr ''USD'')])
        ''https://games.example.com/a'',
      Called 4 []] \<and>
   cfg_tenantName config_a = Some ''tenant1'' \<and>
   cfg_callbackUrl config_a = Some ''https://host.example/cb''"
  by (simp add: one_game_def model_defs example_defs)

section \<open>Creating a session under an id that is already registered\<close>

text \<open>
  Claim C2. When the id of the configuration is already a key of the registry, \<^verbatim>\<open>addGame\<close>
  returns at its duplicate check: the outcome is the "already exists" failure and the
  whole state (registry, stored games, iframes, listeners, effects) is the state before
  the call. In the older version the duplicate check comes right after the check of the
  id itself. In the newer version it comes after the check for missing required fields,
  so a configuration that also lacks one of them is refused for that reason, again
  without any change of state.
\<close>

theorem duplicate_gameId_rejected:
  assumes "cfg_gameId cfg = Some gid" and "gid \<noteq> []"
  shows "(map_of (games w) gid = Some g \<longrightarrow> addGame w cfg outcome = (AlreadyExists, w)) \<and>
         (map_of (games v) gid = Some g2 \<longrightarrow>
            snd (v2_addGame v cfg outcome) = v \<and>
            fst (v2_addGame v cfg outcome) =
              (if truthy_field (cfg_tenantName cfg) \<and> truthy_field (cfg_containerId cfg) \<and>
                  truthy_field (cfg_iframeUrl cfg) \<and> truthy_field (cfg_callbackUrl cfg)
               then AlreadyExists else MissingConfig))"
proof (intro conjI impI)
  assume "map_of (games w) gid = Some g"
  then have "get_game w gid = Own g" by (rule get_game_Own)
  with assms show "addGame w cfg outcome = (AlreadyExists, w)"
    by (simp add: addGame_def addGame_validate_def)
next
  assume "map_of (games v) gid = Some g2"
  then have own: "get_game v gid = Own g2" by (rule get_game_Own)
  with assms show "snd (v2_addGame v cfg outcome) = v"
    by (simp add: v2_addGame_def v2_addGame_validate_def truthy_field_def str_or_undefined_def
        split: option.splits)
  from own assms show "fst (v2_addGame v cfg outcome) =
              (if truthy_field (cfg_tenantName cfg) \<and> truthy_field (cfg_containerId cfg) \<and>
                  truthy_field (cfg_iframeUrl cfg) \<and> truthy_field (cfg_callbackUrl cfg)
               then AlreadyExists else MissingConfig)"
    by (simp add: v2_addGame_def v2_addGame_validate_def truthy_field_def str_or_undefined_def
        split: option.splits)
qed

theorem duplicate_gameId_rejected_witness:
  "addGame one_game config_a Rejected = (AlreadyExists, one_game) \<and>
   v2_addGame v2_one_game config_a Rejected = (AlreadyExists, v2_one_game)"
proof -
  have id: "cfg_gameId config_a = Some ''g1''" and ne: "''g1'' \<noteq> []"
    by (simp_all add: config_a_def)
  have fields:
    "truthy_field (cfg_tenantName config_a) \<and> truthy_field (cfg_containerId config_a) \<and>
     truthy_field (cfg_iframeUrl config_a) \<and> truthy_field (cfg_callbackUrl config_a)"
    by (simp add: config_a_def truthy_field_def str_or_undefined_def)
  from duplicate_gameId_rejected [OF id ne, of one_game _ Rejected v2_one_game]
    one_game_g1 v2_one_game_g1 fields
  show ?thesis by (simp add: prod_eq_iff)
qed

section \<open>Routing of a game result\<close>

lemma v2_gameResult_routed_to_sender:
  assumes reg: "(k, g) \<in> set (games v)"
    and win: "contentWindow (elements v (iframe g)) = source event"
    and unique: "\<And>kv. kv \<in> set (games v) \<Longrightarrow>
                   contentWindow (elements v (iframe (snd kv))) = source event \<Longrightarrow> kv = (k, g)"
    and act: "get_prop (data event) ''action'' = JStr ''gameResult''"
  shows "v2_handleMessage v event =
           (Inr (), invoke (onGameResult g) [get_prop (data event) ''data''] v)"
proof -
  let ?P = "\<lambda>kv. contentWindow (elements v (iframe (snd kv))) = source event"
  from reg win have "\<exists>x \<in> set (own_properties (games v)). ?P x"
    by (force simp: set_own_properties)
  then obtain x where found: "find ?P (own_properties (games v)) = Some x"
    by (cases "find ?P (own_properties (games v))") (auto simp: find_None_iff)
  then have "?P x" and "x \<in> set (own_properties (games v))"
    by (auto simp: find_Some_iff)
  with unique have "x = (k, g)"
    by (simp add: set_own_properties)
  with found act action_is_object [OF act] show ?thesis
    by (simp add: v2_handleMessage_def Let_def)
qed

lemma v2_gameResult_reaches_sender_only:
  "v2_window_message v2_two_games
      \<lparr>origin = ''https://games.example.com'', source = Some 0,
       data = JObj [(''action'', JStr ''gameResult''), (''data'', JNum 7)]\<rparr>
     = ([], v2_two_games\<lparr>trace := trace v2_two_games @ [Called 3 [JNum 7]]\<rparr>)"
  by (simp add: v2_two_games_def v2_one_game_def model_defs example_defs own_properties_def
      is_array_index_def)

text \<open>
  Claim C3 says that a \<^verbatim>\<open>gameResult\<close> message sent by the iframe of one session calls
  the \<^verbatim>\<open>onGameResult\<close> of that session only. The older version runs every game's
  listener on every message event and tells the games apart by origin alone: with two
  games served from one origin, the message sent by the first game's window (window 0)
  also calls the second game's \<^verbatim>\<open>onGameResult\<close> (host function 13). The newer version
  calls the callback of the game whose window sent the message
  (\<open>v2_gameResult_routed_to_sender\<close>), on the same event the sender's callback only
  (\<open>v2_gameResult_reaches_sender_only\<close>).
\<close>

theorem gameResult_reaches_other_session:
  "window_message two_games
      \<lparr>origin = ''https://games.example.com'', source = Some 0,
       data = JObj [(''action'', JStr ''gameResult''), (''data'', JNum 7)]\<rparr>
     = ([], two_games\<lparr>trace := trace two_games @ [Called 3 [JNum 7], Called 13 [JNum 7]]\<rparr>)"
  by (simp add: two_games_def one_game_def model_defs example_defs)

section \<open>Messages from a sender that no session owns\<close>

text \<open>
  What the guards of the handlers drop. In the older version a listener returns at once
  when the game bound into it is no longer registered or when the event's origin differs
  from the origin of the game's URL; if that is so for every listener, the message
  changes nothing and raises nothing. In the newer version the same holds when no
  registered game's \<^verbatim>\<open>iframe.contentWindow\<close> is \<^verbatim>\<open>event.source\<close>. Neither guard of
  the older version looks at the sender.
\<close>

lemma messages_dropped_by_the_guards:
  "((\<forall>l \<in> set (listeners w). \<forall>gid. bound_args l = [gid] \<longrightarrow>
        get_game w gid = Missing \<or>
        (\<exists>g allowed. get_game w gid = Own g \<and> url_origin w (iframeUrl g) = Some allowed \<and>
                      allowed \<noteq> origin event))
      \<longrightarrow> window_message w event = ([], w)) \<and>
   ((\<forall>kv \<in> set (games v). contentWindow (elements v (iframe (snd kv))) \<noteq> source event')
      \<longrightarrow> v2_window_message v event' = ([], v))"
proof (intro conjI impI)
  assume unres: "\<forall>l \<in> set (listeners w). \<forall>gid. bound_args l = [gid] \<longrightarrow>
        get_game w gid = Missing \<or>
        (\<exists>g allowed. get_game w gid = Own g \<and> url_origin w (iframeUrl g) = Some allowed \<and>
                      allowed \<noteq> origin event)"
  have "dispatch (listeners w) w event = ([], w)"
  proof (rule dispatch_all_dropped)
    fix l gid
    assume "l \<in> set (listeners w)" and "bound_args l = [gid]"
    with unres have "get_game w gid = Missing \<or>
        (\<exists>g allowed. get_game w gid = Own g \<and> url_origin w (iframeUrl g) = Some allowed \<and>
                      allowed \<noteq> origin event)"
      by blast
    then show "handleMessage w gid event = (Inr (), w)"
      by (auto intro: handleMessage_unregistered handleMessage_other_origin)
  qed
  then show "window_message w event = ([], w)"
    by (simp add: window_message_def)
next
  assume "\<forall>kv \<in> set (games v). contentWindow (elements v (iframe (snd kv))) \<noteq> source event'"
  then have "v2_handleMessage v event' = (Inr (), v)"
    by (intro v2_handleMessage_no_sender) blast
  then show "v2_window_message v event' = ([], v)"
    by (simp add: v2_window_message_def v2_dispatch_all_dropped)
qed

text \<open>
  In the newer version \<^verbatim>\<open>event.source\<close> is compared with \<^verbatim>\<open>===\<close>, so a message without
  a source window matches a game whose iframe has left the document.
\<close>

lemma v2_null_source_matches_detached_iframe:
  "v2_window_message
      (v2_one_game\<lparr>elements := (elements v2_one_game)
         (0 := (elements v2_one_game 0)\<lparr>parentElement := None, contentWindow := None\<rparr>)\<rparr>)
      \<lparr>origin = ''https://elsewhere.example'', source = None,
       data = JObj [(''action'', JStr ''gameResult''), (''data'', JNum 7)]\<rparr>
     = ([], (v2_one_game\<lparr>elements := (elements v2_one_game)
         (0 := (elements v2_one_game 0)\<lparr>parentElement := None, contentWindow := None\<rparr>)\<rparr>)
            \<lparr>trace := trace v2_one_game @ [Called 3 [JNum 7]]\<rparr>)"
  by (simp add: v2_one_game_def model_defs example_defs own_properties_def is_array_index_def)

text \<open>
  Claim C4 says that a message whose sender belongs to no registered session calls no
  host function and changes no state. The older version does not have this property,
  for the reason of claim C3: no listener reads \<^verbatim>\<open>event.source\<close>. On the page with the
  games \<^verbatim>\<open>g1\<close> and \<^verbatim>\<open>g2\<close>, window 7 is the content window of no game; a
  \<^verbatim>\<open>gameResult\<close> message from it with the games' origin calls the \<^verbatim>\<open>onGameResult\<close> of
  both games, and an \<^verbatim>\<open>updateLocaleAndCurrency\<close> message from it overwrites the currency
  of both. After \<^verbatim>\<open>g1\<close> was removed, a message from its former window 0 calls the
  \<^verbatim>\<open>onGameResult\<close> of \<^verbatim>\<open>g2\<close>.
\<close>

theorem unowned_sender_reaches_callbacks:
  "list_all (\<lambda>kv. contentWindow (elements two_games (iframe (snd kv))) \<noteq> Some 7)
     (games two_games) \<and>
   window_message two_games
      \<lparr>origin = ''https://games.example.com'', source = Some 7,
       data = JObj [(''action'', JStr ''gameResult''), (''data'', JNum 7)]\<rparr>
     = ([], two_games\<lparr>trace := trace two_games @ [Called 3 [JNum 7], Called 13 [JNum 7]]\<rparr>) \<and>
   map (\<lambda>kv. currency (snd kv))
     (games (snd (window_message two_games
        \<lparr>origin = ''https://games.example.com'', source = Some 7,
         data = JObj [(''action'', JStr ''updateLocaleAndCurrency''),
                      (''currency'', JStr ''EUR'')]\<rparr>)))
     = [JStr ''EUR'', JStr ''EUR''] \<and>
   map (\<lambda>kv. currency (snd kv)) (games two_games) = [JStr ''USD'', JStr ''TZS''] \<and>
   map fst (games (snd (removeGame two_games ''g1''))) = [''g2''] \<and>
   window_message (snd (removeGame two_games ''g1''))
      \<lparr>origin = ''https://games.example.com'', source = Some 0,
       data = JObj [(''action'', JStr ''gameResult''), (''data'', JNum 7)]\<rparr>
     = ([], (snd (removeGame two_games ''g1''))
               \<lparr>trace := trace two_games @ [Called 13 [JNum 7]]\<rparr>)"
  by (simp add: two_games_def one_game_def model_defs example_defs)

section \<open>Updating locale and currency\<close>

text \<open>
  Claim C5, as the code has it. In the older version, when the listener of a registered game
  accepts a message (its origin is the origin of the game's URL) whose action is
  \<^verbatim>\<open>updateLocaleAndCurrency\<close>, the game's locale is overwritten with the payload's
  \<^verbatim>\<open>locale\<close> exactly when that value is truthy, and likewise the currency; a field that is
  absent or falsy (the empty string, \<^verbatim>\<open>null\<close>, \<^verbatim>\<open>0\<close>, \<^verbatim>\<open>false\<close>) leaves the game's
  field as it was, and nothing else changes. In the newer version the action is not
  handled: the message changes nothing.
\<close>

theorem updateLocaleAndCurrency_overwrites_truthy_fields:
  "(get_game w gid = Own g \<and> url_origin w (iframeUrl g) = Some (origin event) \<and>
    get_prop (data event) ''action'' = JStr ''updateLocaleAndCurrency'' \<longrightarrow>
      handleMessage w gid event =
        (Inr (),
         w\<lparr>games := AList.update gid
              (g\<lparr>locale' := (if truthy (get_prop (data event) ''locale'')
                              then get_prop (data event) ''locale'' else locale' g),
                 currency := (if truthy (get_prop (data event) ''currency'')
                              then get_prop (data event) ''currency'' else currency g)\<rparr>)
              (games w)\<rparr>)) \<and>
   (get_prop (data event') ''action'' = JStr ''updateLocaleAndCurrency'' \<longrightarrow>
      v2_handleMessage v event' = (Inr (), v))"
proof (intro conjI impI)
  assume h: "get_game w gid = Own g \<and> url_origin w (iframeUrl g) = Some (origin event) \<and>
    get_prop (data event) ''action'' = JStr ''updateLocaleAndCurrency''"
  then have "destructure (data event) = Inr (get_prop (data event))"
    using action_is_object by blast
  with h show "handleMessage w gid event =
        (Inr (),
         w\<lparr>games := AList.update gid
              (g\<lparr>locale' := (if truthy (get_prop (data event) ''locale'')
                              then get_prop (data event) ''locale'' else locale' g),
                 currency := (if truthy (get_prop (data event) ''currency'')
                              then get_prop (data event) ''currency'' else currency g)\<rparr>)
              (games w)\<rparr>)"
    by (simp add: handleMessage_def)
next
  assume h: "get_prop (data event') ''action'' = JStr ''updateLocaleAndCurrency''"
  then have "truthy (data event')"
    using action_is_object by blast
  with h show "v2_handleMessage v event' = (Inr (), v)"
    by (simp add: v2_handleMessage_def Let_def split: option.splits)
qed

theorem updateLocaleAndCurrency_overwrites_truthy_fields_witness:
  "handleMessage one_game ''g1''
      \<lparr>origin = ''https://games.example.com'', source = Some 0,
       data = JObj [(''action'', JStr ''updateLocaleAndCurrency''), (''currency'', JStr ''EUR'')]\<rparr>
     = (Inr (),
        one_game\<lparr>games :=
          [(''g1'', \<lparr>iframe = 0, iframeUrl = ''https://games.example.com/a'',
                    userId = JStr ''u1'', locale' = JStr ''en-US'', currency = JStr ''EUR'',
                    onError = HostFn 2, onGameResult = HostFn 3\<rparr>)]\<rparr>) \<and>
   v2_handleMessage v2_one_game
      \<lparr>origin = ''https://games.example.com'', source = Some 0,
       data = JObj [(''action'', JStr ''updateLocaleAndCurrency''), (''currency'', JStr ''EUR'')]\<rparr>
     = (Inr (), v2_one_game)"
proof -
  let ?ev = "\<lparr>origin = ''https://games.example.com'', source = Some 0,
       data = JObj [(''action'', JStr ''updateLocaleAndCurrency''), (''currency'', JStr ''EUR'')]\<rparr>"
  let ?g = "\<lparr>iframe = 0, iframeUrl = ''https://games.example.com/a'', userId = JStr ''u1'',
           locale' = JStr ''en-US'', currency = JStr ''USD'', onError = HostFn 2,
           onGameResult = HostFn 3\<rparr>"
  have own: "get_game one_game ''g1'' = Own ?g"
    by (simp add: get_game_Own_iff one_game_g1)
  have org: "url_origin one_game (iframeUrl ?g) = Some (origin ?ev)"
    by (simp add: one_game_url_origin example_url_origin_def)
  have act: "get_prop (data ?ev) ''action'' = JStr ''updateLocaleAndCurrency''"
    by simp
  have games: "games one_game = [(''g1'', ?g)]"
    by (simp add: one_game_def model_defs example_defs)
  from updateLocaleAndCurrency_overwrites_truthy_fields
         [of one_game "''g1''" ?g ?ev ?ev v2_one_game] own org act
  show ?thesis by (simp add: games)
qed

text \<open>
  The claim as first stated overwrites a field exactly when it is present in the payload.
  In the older version a locale that is present as the empty string is not written (the
  currency of the same payload is); in the newer version a payload with both fields, sent
  by the game's own window, changes nothing.
\<close>

theorem updateLocaleAndCurrency_counterexample:
  "games (snd (handleMessage one_game ''g1''
      \<lparr>origin = ''https://games.example.com'', source = Some 0,
       data = JObj [(''action'', JStr ''updateLocaleAndCurrency''), (''locale'', JStr ''''),
                    (''currency'', JStr ''EUR'')]\<rparr>))
     = [(''g1'', \<lparr>iframe = 0, iframeUrl = ''https://games.example.com/a'',
                    userId = JStr ''u1'', locale' = JStr ''en-US'', currency = JStr ''EUR'',
                    onError = HostFn 2, onGameResult = HostFn 3\<rparr>)] \<and>
   v2_handleMessage v2_one_game
      \<lparr>origin = ''https://games.example.com'', source = Some 0,
       data = JObj [(''action'', JStr ''updateLocaleAndCurrency''), (''locale'', JStr ''fr-FR''),
                    (''currency'', JStr ''EUR'')]\<rparr>
     = (Inr (), v2_one_game)"
proof
  show "games (snd (handleMessage one_game ''g1''
      \<lparr>origin = ''https://games.example.com'', source = Some 0,
       data = JObj [(''action'', JStr ''updateLocaleAndCurrency''), (''locale'', JStr ''''),
                    (''currency'', JStr ''EUR'')]\<rparr>))
     = [(''g1'', \<lparr>iframe = 0, iframeUrl = ''https://games.example.com/a'',
                    userId = JStr ''u1'', locale' = JStr ''en-US'', currency = JStr ''EUR'',
                    onError = HostFn 2, onGameResult = HostFn 3\<rparr>)]"
    by (simp add: one_game_def model_defs example_defs)
  show "v2_handleMessage v2_one_game
      \<lparr>origin = ''https://games.example.com'', source = Some 0,
       data = JObj [(''action'', JStr ''updateLocaleAndCurrency''), (''locale'', JStr ''fr-FR''),
                    (''currency'', JStr ''EUR'')]\<rparr>
     = (Inr (), v2_one_game)"
    by (simp add: v2_handleMessage_def Let_def split: option.splits)
qed

section \<open>Removing an id that is not registered\<close>

lemma removeGame_unregistered:
  "map_of (games w) gid = None \<Longrightarrow> gid \<notin> set object_prototype_keys \<Longrightarrow>
     removeGame w gid = (Inr NotFound, w)"
  by (simp add: removeGame_def get_game_def)

text \<open>
  Claim C6 says that \<^verbatim>\<open>removeGame\<close> on an id that is not in the registry fails with the
  "does not exist" warning and changes nothing. That holds for every id that is not a
  property name of \<^verbatim>\<open>Object.prototype\<close> (\<open>removeGame_unregistered\<close>). For an inherited
  name such as \<^verbatim>\<open>constructor\<close>, on a page where no game was ever added,
  \<^verbatim>\<open>this.games[gameId]\<close> is truthy, the guard is passed, and
  \<^verbatim>\<open>game.iframe.parentElement\<close> raises a \<^verbatim>\<open>TypeError\<close>.
\<close>

theorem removeGame_inherited_key_throws:
  "removeGame example_page ''constructor'' = (Inl TypeError, example_page)"
  by (simp add: removeGame_def get_game_def example_page_def new_sdk_def
      object_prototype_keys_def)

section \<open>A load signal after the session was removed\<close>

text \<open>
  A \<^verbatim>\<open>removeGame\<close> issued while \<^verbatim>\<open>addGame\<close> still awaits the balance finds no game: it
  warns and changes nothing, and the game is registered when \<^verbatim>\<open>addGame\<close> resumes.
\<close>

lemma removeGame_during_await:
  assumes "addGame_validate w cfg = Inr (gid, c, url, f)"
  shows "removeGame (invoke (HostFn f) [str_or_undefined (cfg_userId cfg)] w) gid =
           (Inr NotFound, invoke (HostFn f) [str_or_undefined (cfg_userId cfg)] w)"
  using addGame_validate_Inr [OF assms] by (simp add: removeGame_def)

lemma addGame_interleaved_nothing:
  "addGame_interleaved w cfg (\<lambda>x. x) outcome = addGame w cfg outcome"
  by (simp add: addGame_interleaved_def addGame_def)

text \<open>
  When \<^verbatim>\<open>addGame\<close> has completed before \<^verbatim>\<open>removeGame\<close> is called, the removal succeeds
  and the load handler of the removed iframe, run in the state right after the removal,
  posts nothing and calls nothing, but it does not return: the first \<^verbatim>\<open>postMessage\<close>
  finds no game, and \<^verbatim>\<open>this.games[gameId].locale\<close> then raises a \<^verbatim>\<open>TypeError\<close>.
\<close>

lemma iframe_onload_unregistered:
  "get_game w (cl_gameId cl) = Missing \<Longrightarrow> iframe_onload w cl = (Inl TypeError, w)"
  by (simp add: iframe_onload_def postMessage_def)

lemma load_after_completed_removeGame:
  assumes add: "addGame w cfg outcome = (Added, w1)"
    and id: "cfg_gameId cfg = Some gid"
    and rm: "removeGame w1 gid = (r, w2)"
  shows "r = Inr Removed \<and>
         trace w2 = trace w @
           (case cfg_getUserBalance cfg of
              Some f \<Rightarrow> [Called f [str_or_undefined (cfg_userId cfg)]] | None \<Rightarrow> []) \<and>
         load_event w2 (next_element w) = (Inl TypeError, w2)"
proof -
  from add obtain gid' c url f where v: "addGame_validate w cfg = Inr (gid', c, url, f)"
    and w1: "w1 = addGame_resume (invoke (HostFn f) [str_or_undefined (cfg_userId cfg)] w)
                    cfg gid' c url outcome"
    by (rule addGame_Added)
  from addGame_validate_Inr [OF v] id have gid': "gid' = gid"
    and missing: "get_game w gid = Missing" and f: "cfg_getUserBalance cfg = Some f"
    by simp_all
  from missing have notproto: "gid \<notin> set object_prototype_keys"
    by (simp add: get_game_Missing_iff)
  let ?g = "\<lparr>iframe = next_element w, iframeUrl = url, userId = str_or_undefined (cfg_userId cfg),
        locale' = or_default (cfg_locale cfg) (defaultLocale w),
        currency = or_default (cfg_currency cfg) (defaultCurrency w),
        onError = or_noop (cfg_onError cfg),
        onGameResult = or_noop (cfg_onGameResult cfg)\<rparr>"
  have own: "get_game w1 gid = Own ?g"
    by (simp add: w1 gid' get_game_Own_iff addGame_resume_games AList.update_conv)
  have el: "elements w1 (next_element w) =
        \<lparr>src = url, parentElement = Some c, contentWindow = Some (next_element w),
         onload = Some \<lparr>cl_gameId = gid, cl_userId = str_or_undefined (cfg_userId cfg),
                        cl_balance = (case outcome of Resolved v \<Rightarrow> v | Rejected \<Rightarrow> JNum 0),
                        cl_onGameLoad = cfg_onGameLoad cfg\<rparr>\<rparr>"
    by (simp add: w1 gid' addGame_resume_elements)
  have tr: "trace w1 = trace w @ [Called f [str_or_undefined (cfg_userId cfg)]]"
    by (simp add: w1 addGame_resume_trace)
  from rm own el have r: "r = Inr Removed"
    and w2: "w2 = removeEventListener
               (snd (bind_handleMessage
                  (w1\<lparr>elements := (elements w1)
                        (next_element w := (elements w1 (next_element w))
                           \<lparr>parentElement := None, contentWindow := None\<rparr>),
                      games := AList.delete gid (games w1)\<rparr>) [gid]))
               (fst (bind_handleMessage
                  (w1\<lparr>elements := (elements w1)
                        (next_element w := (elements w1 (next_element w))
                           \<lparr>parentElement := None, contentWindow := None\<rparr>),
                      games := AList.delete gid (games w1)\<rparr>) [gid]))"
    by (auto simp: removeGame_def Let_def split_beta)
  have tr2: "trace w2 = trace w1"
    by (simp add: w2 removeEventListener_def bind_handleMessage_def)
  have gone: "get_game w2 gid = Missing"
    using notproto
    by (simp add: w2 removeEventListener_def bind_handleMessage_def get_game_def
        AList.delete_conv)
  have el2: "onload (elements w2 (next_element w)) =
       Some \<lparr>cl_gameId = gid, cl_userId = str_or_undefined (cfg_userId cfg),
                        cl_balance = (case outcome of Resolved v \<Rightarrow> v | Rejected \<Rightarrow> JNum 0),
                        cl_onGameLoad = cfg_onGameLoad cfg\<rparr>"
    by (simp add: w2 removeEventListener_def bind_handleMessage_def el)
  have "load_event w2 (next_element w) = (Inl TypeError, w2)"
    by (simp add: load_event_def el2 iframe_onload_unregistered gone)
  with r tr tr2 f show ?thesis by simp
qed

text \<open>
  Claim C7 says that when \<^verbatim>\<open>addGame\<close> is followed by \<^verbatim>\<open>removeGame\<close> before the load
  signal, \<^verbatim>\<open>onGameLoad\<close> is never called and a load signal after the removal is a
  no-op. The load handler never checks that the session it was made for is still the
  registered one; only \<^verbatim>\<open>postMessage\<close> checks that some game has the id. Three
  executions on the concrete page, for the game \<^verbatim>\<open>g1\<close> whose \<^verbatim>\<open>onGameLoad\<close> is host
  function 4:
  \<^item> \<^verbatim>\<open>removeGame\<close> is called right after \<^verbatim>\<open>addGame\<close>, while the balance is awaited: it
    finds no game, the game is registered afterwards, and its load signal sends the
    handshake and calls \<^verbatim>\<open>onGameLoad\<close>;
  \<^item> \<^verbatim>\<open>removeGame\<close> is called after \<^verbatim>\<open>addGame\<close> has completed: the load handler of the
    removed iframe raises a \<^verbatim>\<open>TypeError\<close>;
  \<^item> the id is added again (in another container, with \<^verbatim>\<open>onGameLoad\<close> 24) before that
    load signal arrives: the handler of the removed iframe posts the old session's user
    details to the new iframe's window 1 and calls the old \<^verbatim>\<open>onGameLoad\<close>.
\<close>

theorem removed_session_load_not_noop:
  "removeGame (invoke (HostFn 1) [JStr ''u1''] example_page) ''g1''
     = (Inr NotFound, invoke (HostFn 1) [JStr ''u1''] example_page) \<and>
   fst (addGame_interleaved example_page config_a (\<lambda>w. snd (removeGame w ''g1''))
          (Resolved (JNum 50))) = Added \<and>
   trace (snd (load_event
            (snd (addGame_interleaved example_page config_a (\<lambda>w. snd (removeGame w ''g1''))
                    (Resolved (JNum 50)))) 0))
     = [Called 1 [JStr ''u1''],
        Posted 0 (JObj [(''action'', JStr ''setParentDomain''),
                        (''domain'', JStr ''https://host.example'')])
          ''https://games.example.com/a'',
        Posted 0 (JObj [(''action'', JStr ''userDetails''), (''userId'', JStr ''u1''),
                        (''balance'', JNum 50), (''locale'', JStr ''en-US''),
                        (''currency'', JStr ''USD'')])
          ''https://games.example.com/a'',
        Called 4 []] \<and>
   fst (removeGame one_game ''g1'') = Inr Removed \<and>
   load_event (snd (removeGame one_game ''g1'')) 0
     = (Inl TypeError, snd (removeGame one_game ''g1'')) \<and>
   fst (addGame (snd (removeGame one_game ''g1''))
          (config_a\<lparr>cfg_containerId := Some ''slotB'', cfg_onGameLoad := Some 24\<rparr>)
          (Resolved (JNum 90))) = Added \<and>
   trace (snd (load_event
            (snd (addGame (snd (removeGame one_game ''g1''))
                    (config_a\<lparr>cfg_containerId := Some ''slotB'', cfg_onGameLoad := Some 24\<rparr>)
                    (Resolved (JNum 90)))) 0))
     = [Called 1 [JStr ''u1''], Called 1 [JStr ''u1''],
        Posted 1 (JObj [(''action'', JStr ''setParentDomain''),
                        (''domain'', JStr ''https://host.example'')])
          ''https://games.example.com/a'',
        Posted 1 (JObj [(''action'', JStr ''userDetails''), (''userId'', JStr ''u1''),
                        (''balance'', JNum 50), (''locale'', JStr ''en-US''),
                        (''currency'', JStr ''USD'')])
          ''https://games.example.com/a'',
        Called 4 []]"
  by (simp add: one_game_def addGame_interleaved_def model_defs example_defs)

section \<open>Handlers that raise\<close>

lemma unparsable_url_throws:
  "fst (addGame example_page (config_a\<lparr>cfg_iframeUrl := Some ''http''\<rparr>) (Resolved (JNum 50))) = Added \<and>
   fst (window_message
          (snd (addGame example_page (config_a\<lparr>cfg_iframeUrl := Some ''http''\<rparr>)
                  (Resolved (JNum 50))))
          \<lparr>origin = ''https://elsewhere.example'', source = Some 7, data = JObj []\<rparr>)
     = [TypeError]"
  by (simp add: model_defs example_defs)

lemma v2_handleMessage_returns: "fst (v2_handleMessage v event) = Inr ()"
  by (simp add: v2_handleMessage_def Let_def split: option.splits)

text \<open>
  Claim C8 says that no handler lets an exception escape, whatever the payload. In the
  older version a message from the game's own origin whose data is \<^verbatim>\<open>null\<close> makes
  \<^verbatim>\<open>handleMessage\<close> raise a \<^verbatim>\<open>TypeError\<close> at the destructuring of \<^verbatim>\<open>event.data\<close>. The
  newer version reads \<^verbatim>\<open>event.data || {}\<close> and always returns (\<open>v2_handleMessage_returns\<close>).
  The older version's listener also raises on every message once a game was added with a
  URL that starts with \<^verbatim>\<open>http\<close> but does not parse (\<open>unparsable_url_throws\<close>).
\<close>

theorem handleMessage_null_data_throws:
  "handleMessage one_game ''g1''
      \<lparr>origin = ''https://games.example.com'', source = Some 0, data = JNull\<rparr>
     = (Inl TypeError, one_game) \<and>
   window_message one_game
      \<lparr>origin = ''https://games.example.com'', source = Some 0, data = JNull\<rparr>
     = ([TypeError], one_game)"
  by (simp add: one_game_def model_defs example_defs)

section \<open>A balance function that fails\<close>

text \<open>
  Claim C9. For a configuration that passes the checks of \<^verbatim>\<open>addGame\<close>, a balance function
  that throws or rejects does not stop the creation: the outcome is success, the game is
  registered, its iframe is created with the configured URL and appended to the
  container, and the balance kept for the session is 0 (in the closure that sends
  \<^verbatim>\<open>userDetails\<close>; the newer version also stores it in the game). The only host function
  called is the balance function itself, so \<^verbatim>\<open>onError\<close> is not called. In the newer
  version a missing balance function fails inside the same \<^verbatim>\<open>try\<close> and calls nothing.
\<close>

theorem balance_failure_gives_zero_balance:
  "(addGame_validate w cfg = Inr (gid, c, url, f) \<longrightarrow>
      (\<exists>w' g cl.
         addGame w cfg Rejected = (Added, w') \<and>
         get_game w' gid = Own g \<and>
         elements w' (iframe g) =
           \<lparr>src = url, parentElement = Some c, contentWindow = Some (iframe g),
            onload = Some cl\<rparr> \<and>
         cl_gameId cl = gid \<and> cl_balance cl = JNum 0 \<and>
         trace w' = trace w @ [Called f [str_or_undefined (cfg_userId cfg)]])) \<and>
   (v2_addGame_validate v cfg = Inr (gid, c, url) \<longrightarrow>
      (\<exists>v' g cl.
         v2_addGame v cfg Rejected = (Added, v') \<and>
         get_game v' gid = Own g \<and> balance g = JNum 0 \<and>
         elements v' (iframe g) =
           \<lparr>src = url, parentElement = Some c, contentWindow = Some (iframe g),
            onload = Some cl\<rparr> \<and>
         cl_gameId cl = gid \<and> cl_balance cl = JNum 0 \<and>
         trace v' = trace v @
           (case cfg_getUserBalance cfg of
              Some f \<Rightarrow> [Called f [str_or_undefined (cfg_userId cfg)]] | None \<Rightarrow> [])))"
proof (intro conjI impI)
  assume v: "addGame_validate w cfg = Inr (gid, c, url, f)"
  let ?w' = "addGame_resume (invoke (HostFn f) [str_or_undefined (cfg_userId cfg)] w)
               cfg gid c url Rejected"
  have "addGame w cfg Rejected = (Added, ?w')"
    by (simp add: addGame_def v)
  moreover have "get_game ?w' gid = Own
       \<lparr>iframe = next_element w, iframeUrl = url, userId = str_or_undefined (cfg_userId cfg),
        locale' = or_default (cfg_locale cfg) (defaultLocale w),
        currency = or_default (cfg_currency cfg) (defaultCurrency w),
        onError = or_noop (cfg_onError cfg),
        onGameResult = or_noop (cfg_onGameResult cfg)\<rparr>"
    by (simp add: get_game_Own_iff addGame_resume_games AList.update_conv)
  moreover have "trace ?w' = trace w @ [Called f [str_or_undefined (cfg_userId cfg)]]"
    by (simp add: addGame_resume_trace)
  ultimately show "\<exists>w' g cl.
         addGame w cfg Rejected = (Added, w') \<and>
         get_game w' gid = Own g \<and>
         elements w' (iframe g) =
           \<lparr>src = url, parentElement = Some c, contentWindow = Some (iframe g),
            onload = Some cl\<rparr> \<and>
         cl_gameId cl = gid \<and> cl_balance cl = JNum 0 \<and>
         trace w' = trace w @ [Called f [str_or_undefined (cfg_userId cfg)]]"
    by (simp add: addGame_resume_elements)
next
  assume v: "v2_addGame_validate v cfg = Inr (gid, c, url)"
  let ?v0 = "snd (v2_getUserBalance v cfg Rejected)"
  let ?v' = "v2_addGame_resume ?v0 cfg gid c url Rejected"
  have settled: "fst (v2_getUserBalance v cfg Rejected) = Rejected"
    by (simp add: v2_getUserBalance_def split: option.splits)
  have v0: "games ?v0 = games v" "elements ?v0 = elements v" "next_element ?v0 = next_element v"
    "defaultLocale ?v0 = defaultLocale v" "defaultCurrency ?v0 = defaultCurrency v"
    by (simp_all add: v2_getUserBalance_def split: option.splits)
  have tr0: "trace ?v0 = trace v @
           (case cfg_getUserBalance cfg of
              Some f \<Rightarrow> [Called f [str_or_undefined (cfg_userId cfg)]] | None \<Rightarrow> [])"
    by (simp add: v2_getUserBalance_def split: option.splits)
  have "v2_addGame v cfg Rejected = (Added, ?v')"
    using settled by (simp add: v2_addGame_def v split_beta)
  moreover have "get_game ?v' gid = Own
       \<lparr>iframe = next_element v, iframeUrl = url, userId = str_or_undefined (cfg_userId cfg),
        locale' = or_default (cfg_locale cfg) (defaultLocale v),
        currency = or_default (cfg_currency cfg) (defaultCurrency v),
        onError = or_noop (cfg_onError cfg),
        onGameResult = or_noop (cfg_onGameResult cfg),
        tenantName = str_or_undefined (cfg_tenantName cfg), gameId = JStr gid,
        callbackUrl = str_or_undefined (cfg_callbackUrl cfg),
        balance = JNum 0, ready = False\<rparr>"
    by (simp add: get_game_Own_iff v2_addGame_resume_games AList.update_conv v0)
  moreover have "trace ?v' = trace v @
           (case cfg_getUserBalance cfg of
              Some f \<Rightarrow> [Called f [str_or_undefined (cfg_userId cfg)]] | None \<Rightarrow> [])"
    by (simp add: v2_addGame_resume_trace tr0)
  ultimately show "\<exists>v' g cl.
         v2_addGame v cfg Rejected = (Added, v') \<and>
         get_game v' gid = Own g \<and> balance g = JNum 0 \<and>
         elements v' (iframe g) =
           \<lparr>src = url, parentElement = Some c, contentWindow = Some (iframe g),
            onload = Some cl\<rparr> \<and>
         cl_gameId cl = gid \<and> cl_balance cl = JNum 0 \<and>
         trace v' = trace v @
           (case cfg_getUserBalance cfg of
              Some f \<Rightarrow> [Called f [str_or_undefined (cfg_userId cfg)]] | None \<Rightarrow> [])"
    by (simp add: v2_addGame_resume_elements v0)
qed

theorem balance_failure_gives_zero_balance_witness:
  "(\<exists>w' g cl.
         addGame example_page config_a Rejected = (Added, w') \<and>
         get_game w' ''g1'' = Own g \<and>
         elements w' (iframe g) =
           \<lparr>src = ''https://games.example.com/a'', parentElement = Some 0,
            contentWindow = Some (iframe g), onload = Some cl\<rparr> \<and>
         cl_gameId cl = ''g1'' \<and> cl_balance cl = JNum 0 \<and>
         trace w' = [Called 1 [JStr ''u1'']]) \<and>
   (\<exists>v' g cl.
         v2_addGame v2_example_page config_a Rejected = (Added, v') \<and>
         get_game v' ''g1'' = Own g \<and> balance g = JNum 0 \<and>
         elements v' (iframe g) =
           \<lparr>src = ''https://games.example.com/a'', parentElement = Some 0,
            contentWindow = Some (iframe g), onload = Some cl\<rparr> \<and>
         cl_gameId cl = ''g1'' \<and> cl_balance cl = JNum 0 \<and>
         trace v' = [Called 1 [JStr ''u1'']])"
proof -
  have v1: "addGame_validate example_page config_a =
              Inr (''g1'', 0, ''https://games.example.com/a'', 1)"
    by (simp add: addGame_validate_def get_game_def example_defs new_sdk_def id_string_def
        startsWith_def object_prototype_keys_def)
  have v2: "v2_addGame_validate v2_example_page config_a =
              Inr (''g1'', 0, ''https://games.example.com/a'')"
    by (simp add: v2_addGame_validate_def get_game_def example_defs v2_new_sdk_def
        truthy_field_def str_or_undefined_def object_prototype_keys_def)
  from balance_failure_gives_zero_balance
         [of example_page config_a "''g1''" 0 "''https://games.example.com/a''" 1 v2_example_page]
       v1 v2
  show ?thesis
    by (simp add: config_a_def example_page_def v2_example_page_def new_sdk_def v2_new_sdk_def
        str_or_undefined_def)
qed

section \<open>Registered message listeners\<close>

lemma addGame_adds_listener:
  assumes "list_all (\<lambda>l. callback_ref l < next_function w) (listeners w)"
    and "addGame w cfg outcome = (Added, w1)" and "cfg_gameId cfg = Some gid"
  shows "listeners w1 = listeners w @ [\<lparr>callback_ref = next_function w, bound_args = [gid]\<rparr>] \<and>
         next_function w1 = Suc (next_function w)"
proof -
  from assms(2) obtain gid' c url f where v: "addGame_validate w cfg = Inr (gid', c, url, f)"
    and w1: "w1 = addGame_resume (invoke (HostFn f) [str_or_undefined (cfg_userId cfg)] w)
                    cfg gid' c url outcome"
    by (rule addGame_Added)
  from addGame_validate_Inr [OF v] assms(3) have gid': "gid' = gid" by simp
  have "next_function w \<notin> callback_ref ` set (listeners w)"
    using assms(1) by (auto simp: list_all_iff)
  then show ?thesis
    by (simp add: w1 gid' addGame_resume_def append_iframe_def bind_handleMessage_def
        addEventListener_def Let_def)
qed

lemma removeGame_keeps_listeners:
  assumes "list_all (\<lambda>l. callback_ref l < next_function w) (listeners w)"
  shows "listeners (snd (removeGame w gid)) = listeners w"
proof -
  have "filter (\<lambda>x. callback_ref x \<noteq> next_function w) (listeners w) = listeners w"
    using assms by (auto simp: list_all_iff filter_id_conv)
  then show ?thesis
    by (simp add: removeGame_def removeEventListener_def bind_handleMessage_def Let_def
        split: lookup.splits option.splits)
qed

lemma addGame_failure_unchanged:
  "fst (addGame w cfg outcome) \<noteq> Added \<Longrightarrow> snd (addGame w cfg outcome) = w"
  by (simp add: addGame_def split: sum.splits prod.splits)

lemma addGame_listeners:
  assumes "list_all (\<lambda>l. callback_ref l < next_function w) (listeners w)"
  shows "length (listeners (snd (addGame w cfg outcome))) =
           length (listeners w) + (if fst (addGame w cfg outcome) = Added then 1 else 0) \<and>
         list_all (\<lambda>l. callback_ref l < next_function (snd (addGame w cfg outcome)))
           (listeners (snd (addGame w cfg outcome)))"
proof (cases "fst (addGame w cfg outcome) = Added")
  case False
  with assms show ?thesis by (simp add: addGame_failure_unchanged)
next
  case True
  then have add: "addGame w cfg outcome = (Added, snd (addGame w cfg outcome))"
    by (simp add: prod_eq_iff)
  then obtain gid c url f where "addGame_validate w cfg = Inr (gid, c, url, f)"
    by (rule addGame_Added)
  then have "cfg_gameId cfg = Some gid"
    by (simp add: addGame_validate_Inr)
  from addGame_adds_listener [OF assms add this] assms True show ?thesis
    by (auto simp: list_all_iff)
qed

lemma removeGame_next_function:
  "next_function w \<le> next_function (snd (removeGame w gid))"
  by (simp add: removeGame_def removeEventListener_def bind_handleMessage_def Let_def
      split: lookup.splits option.splits)

lemma removeGame_listeners:
  assumes "list_all (\<lambda>l. callback_ref l < next_function w) (listeners w)"
  shows "list_all (\<lambda>l. callback_ref l < next_function (snd (removeGame w gid)))
           (listeners (snd (removeGame w gid)))"
  using assms removeGame_next_function [of w gid]
  by (auto simp: removeGame_keeps_listeners list_all_iff)

lemma listeners_grow_with_every_addGame:
  "list_all (\<lambda>l. callback_ref l < next_function w) (listeners w) \<Longrightarrow>
     length (listeners (run_calls w cs)) = length (listeners w) + games_added w cs"
proof (induction w cs rule: run_calls.induct)
  case (1 w)
  show ?case by simp
next
  case (2 w cfg outcome cs)
  from addGame_listeners [OF "2.prems", of cfg outcome] "2.IH" show ?case by simp
next
  case (3 w gid cs)
  from removeGame_listeners [OF "3.prems", of gid] removeGame_keeps_listeners [OF "3.prems", of gid]
    "3.IH"
  show ?case by simp
qed

lemma v2_addGame_keeps_listeners: "listeners (snd (v2_addGame v cfg outcome)) = listeners v"
  by (simp add: v2_addGame_def v2_addGame_resume_listeners v2_getUserBalance_def
      split: sum.splits prod.splits option.splits)

text \<open>
  Claim C10 says that listeners do not accumulate and that removing a game removes the
  listener bound to it. In the older version \<^verbatim>\<open>addGame\<close> registers a newly bound
  function and \<^verbatim>\<open>removeGame\<close> hands another newly bound function to
  \<^verbatim>\<open>removeEventListener\<close>, which therefore removes nothing
  (\<open>removeGame_keeps_listeners\<close>, \<open>addGame_adds_listener\<close>), so over any sequence of calls
  the number of listeners grows by one with every game added
  (\<open>listeners_grow_with_every_addGame\<close>): after adding and removing a game its listener is
  still registered, and after doing so twice there are two. The newer version registers its
  one listener in the constructor and \<^verbatim>\<open>addGame\<close> registers none
  (\<open>v2_addGame_keeps_listeners\<close>).
\<close>

theorem listeners_accumulate:
  "listeners (snd (removeGame one_game ''g1'')) = [\<lparr>callback_ref = 0, bound_args = [''g1'']\<rparr>] \<and>
   listeners (snd (removeGame
       (snd (addGame (snd (removeGame one_game ''g1'')) config_a (Resolved (JNum 50)))) ''g1''))
     = [\<lparr>callback_ref = 0, bound_args = [''g1'']\<rparr>, \<lparr>callback_ref = 2, bound_args = [''g1'']\<rparr>]"
  by (simp add: one_game_def model_defs example_defs)

end
